theory Spec2Isabelle
  imports Main "HOL-Library.Word"
begin

unbundle bit_operations_syntax

section \<open>Bytes and the serial port\<close>

text \<open>
  A \<open>QByteArray\<close> is a list of 8-bit words. The element type of the source is
  \<open>char\<close>; where the source promotes a \<open>char\<close> to \<open>int\<close> the model reads the byte
  with \<open>sint\<close> (the desktop targets of the flasher have a signed \<open>char\<close>), and where it
  casts to \<open>unsigned char\<close> or compares two \<open>char\<close>s the byte is compared as it is.
\<close>

type_synonym byte = "8 word"
type_synonym QByteArray = "byte list"

text \<open>
  The serial port as the flasher sees it: \<open>rx\<close> holds the bytes the device delivers, in
  order; a read on an empty \<open>rx\<close> is a read whose wait for data timed out. \<open>tx\<close> collects
  every byte put on the line, \<open>ctl\<close> the changes of the modem control lines and the
  sleeps between them.
\<close>

datatype line_event = DTR bool | RTS bool | Msleep nat

record QSerialPort =
  rx :: QByteArray
  tx :: QByteArray
  ctl :: "line_event list"

section \<open>SLIP framing\<close>

definition SLIPFrameDelimiter :: byte where "SLIPFrameDelimiter = 0xC0"
definition SLIPEscape :: byte where "SLIPEscape = 0xDB"
definition SLIPEscapeFrameDelimiter :: byte where "SLIPEscapeFrameDelimiter = 0xDC"
definition SLIPEscapeEscape :: byte where "SLIPEscapeEscape = 0xDD"

text \<open>The body of the loop of \<open>SLIP_write\<close>: the bytes put on the line for one byte.\<close>

definition SLIP_put :: "byte \<Rightarrow> QByteArray" where
  "SLIP_put c =
     (if c = SLIPFrameDelimiter then [SLIPEscape, SLIPEscapeFrameDelimiter]
      else if c = SLIPEscape then [SLIPEscape, SLIPEscapeEscape]
      else [c])"

fun SLIP_put_all :: "QByteArray \<Rightarrow> QByteArray" where
  "SLIP_put_all [] = []"
| "SLIP_put_all (c # cs) = SLIP_put c @ SLIP_put_all cs"

definition SLIP_encode :: "QByteArray \<Rightarrow> QByteArray" where
  "SLIP_encode bytes = [SLIPFrameDelimiter] @ SLIP_put_all bytes @ [SLIPFrameDelimiter]"

text \<open>\<open>SLIP_write\<close>: errors of the port are ignored by the source, and so is its result.\<close>

definition SLIP_write :: "QSerialPort \<Rightarrow> QByteArray \<Rightarrow> QSerialPort" where
  "SLIP_write out bytes = out\<lparr>tx := tx out @ SLIP_encode bytes\<rparr>"

text \<open>
  \<open>SLIP_read\<close>, first loop: skip everything up to and including the first frame
  delimiter. \<open>None\<close> is the early return on a timeout, with an empty result.
\<close>

fun SLIP_skip :: "QByteArray \<Rightarrow> QByteArray option" where
  "SLIP_skip [] = None"
| "SLIP_skip (c # cs) = (if c = SLIPFrameDelimiter then Some cs else SLIP_skip cs)"

text \<open>
  Second loop: accumulate into \<open>ret\<close> until the closing delimiter, a timeout or an
  invalid escape sequence. The result is \<open>ret\<close> and the bytes left unread.
\<close>

fun SLIP_frame :: "QByteArray \<Rightarrow> QByteArray \<Rightarrow> QByteArray \<times> QByteArray" where
  "SLIP_frame ret [] = (ret, [])"
| "SLIP_frame ret (c # cs) =
     (if c = SLIPFrameDelimiter then (ret, cs)
      else if c = SLIPEscape then
        (case cs of
           [] \<Rightarrow> (ret, [])
         | d # ds \<Rightarrow>
             if d = SLIPEscapeFrameDelimiter then SLIP_frame (ret @ [SLIPFrameDelimiter]) ds
             else if d = SLIPEscapeEscape then SLIP_frame (ret @ [SLIPEscape]) ds
             else (ret, ds))
      else SLIP_frame (ret @ [c]) cs)"

definition SLIP_decode :: "QByteArray \<Rightarrow> QByteArray \<times> QByteArray" where
  "SLIP_decode inp = (case SLIP_skip inp of None \<Rightarrow> ([], []) | Some cs \<Rightarrow> SLIP_frame [] cs)"

definition SLIP_read :: "QSerialPort \<Rightarrow> QByteArray \<times> QSerialPort" where
  "SLIP_read inp = (let (ret, rest) = SLIP_decode (rx inp) in (ret, inp\<lparr>rx := rest\<rparr>))"

section \<open>Command channel\<close>

text \<open>\<open>QDataStream\<close> in little-endian byte order: a \<open>quint16\<close> and a \<open>quint32\<close>. Only
  the low two and four bytes of the value are written, so the value is truncated to the
  width of the field as the casts \<open>quint16(...)\<close> and \<open>quint32(...)\<close> of the source do.\<close>

definition le16 :: "nat \<Rightarrow> QByteArray" where
  "le16 n = [of_nat (n mod 256), of_nat (n div 256 mod 256)]"

definition le32 :: "nat \<Rightarrow> QByteArray" where
  "le32 n = [of_nat (n mod 256), of_nat (n div 256 mod 256), of_nat (n div 65536 mod 256),
     of_nat (n div 16777216 mod 256)]"

fun checksum_from :: "byte \<Rightarrow> QByteArray \<Rightarrow> byte" where
  "checksum_from r [] = r"
| "checksum_from r (d # ds) = checksum_from (r XOR d) ds"

definition checksum :: "QByteArray \<Rightarrow> byte" where
  "checksum data = checksum_from 0xEF data"

definition command_frame :: "byte \<Rightarrow> QByteArray \<Rightarrow> byte \<Rightarrow> QByteArray" where
  "command_frame cmd payload csum =
     [0, cmd] @ le16 (length payload) @ le32 (unat csum) @ payload"

definition writeCommand :: "QSerialPort \<Rightarrow> byte \<Rightarrow> QByteArray \<Rightarrow> byte \<Rightarrow> QSerialPort" where
  "writeCommand out cmd payload csum = SLIP_write out (command_frame cmd payload csum)"

record Response =
  command :: byte
  val :: QByteArray
  body :: QByteArray
  status :: byte
  lastError :: byte
  valid :: bool

definition Response_init :: Response where
  "Response_init = \<lparr>command = 0xff, val = [], body = [], status = 0, lastError = 0,
     valid = False\<rparr>"

definition ok :: "Response \<Rightarrow> bool" where
  "ok r \<longleftrightarrow> valid r \<and> status r = 0 \<and> lastError r = 0"

text \<open>The \<open>quint16\<close> size field of a response frame, bytes 2 and 3, little-endian.\<close>

definition frame_size :: "QByteArray \<Rightarrow> nat" where
  "frame_size resp = unat (resp ! 2) + 256 * unat (resp ! 3)"

text \<open>
  \<open>parseResponse\<close> is \<open>readResponse\<close> after its call of \<open>SLIP_read\<close>. The frame has at
  least 10 bytes where it is indexed. \<open>body\<close> is resized to the declared size and filled
  from the frame; bytes the frame does not have are left as \<open>resize\<close> made them, which
  the source never reads (\<open>status\<close> and \<open>lastError\<close> are taken only from a body of two
  bytes, which a frame of 10 bytes holds); the model writes them as 0.
\<close>

definition parseResponse :: "QByteArray \<Rightarrow> Response" where
  "parseResponse resp =
     (if length resp < 10 then Response_init
      else if resp ! 0 \<noteq> 1 then Response_init
      else
        let size = frame_size resp;
            got = take size (drop 8 resp);
            b = got @ replicate (size - length got) 0
        in \<lparr>command = resp ! 1, val = take 4 (drop 4 resp), body = b,
             status = (if length b = 2 then b ! 0 else 0),
             lastError = (if length b = 2 then b ! 1 else 0),
             valid = True\<rparr>)"

text \<open>The timeout argument of \<open>readResponse\<close> is the time a read waits on an empty line;
  in the model an empty \<open>rx\<close> is a wait that timed out, whatever its length.\<close>

definition readResponse :: "QSerialPort \<Rightarrow> Response \<times> QSerialPort" where
  "readResponse inp = (let (resp, inp') = SLIP_read inp in (parseResponse resp, inp'))"

section \<open>Boot controller\<close>

definition sync_payload :: QByteArray where
  "sync_payload = [0x07, 0x07, 0x12, 0x20] @ replicate 32 0x55"

text \<open>The loop of \<open>sync\<close>, with the number of iterations left.\<close>

fun sync_loop :: "nat \<Rightarrow> QSerialPort \<Rightarrow> bool \<times> QSerialPort" where
  "sync_loop 0 serial = (True, serial)"
| "sync_loop (Suc n) serial =
     (let (resp, serial') = readResponse serial
      in if \<not> valid resp then (False, serial') else sync_loop n serial')"

definition sync :: "QSerialPort \<Rightarrow> bool \<times> QSerialPort" where
  "sync serial = sync_loop 8 (writeCommand serial 0x08 sync_payload 0)"

fun trySync :: "QSerialPort \<Rightarrow> nat \<Rightarrow> bool \<times> QSerialPort" where
  "trySync serial 0 = (False, serial)"
| "trySync serial (Suc attempts) =
     (let (synced, serial') = sync serial
      in if synced then (True, serial') else trySync serial' attempts)"

definition rebootIntoBootloader :: "QSerialPort \<Rightarrow> bool \<times> QSerialPort" where
  "rebootIntoBootloader serial =
     trySync (serial\<lparr>ctl := ctl serial @
        [DTR False, RTS True, Msleep 50, DTR True, RTS False, Msleep 50, DTR False]\<rparr>) 3"

definition rebootIntoFirmware :: "QSerialPort \<Rightarrow> QSerialPort" where
  "rebootIntoFirmware serial =
     serial\<lparr>ctl := ctl serial @ [DTR False, RTS True, Msleep 50, RTS False]\<rparr>"

text \<open>Reading \<open>k\<close> responses one after the other: the responses, and the port after
  them. These two functions state what \<open>sync\<close> consumes; the source has no such loop.\<close>

fun responses :: "nat \<Rightarrow> QSerialPort \<Rightarrow> Response list" where
  "responses 0 serial = []"
| "responses (Suc k) serial =
     (let (resp, serial') = readResponse serial in resp # responses k serial')"

fun after_responses :: "nat \<Rightarrow> QSerialPort \<Rightarrow> QSerialPort" where
  "after_responses 0 serial = serial"
| "after_responses (Suc k) serial = after_responses k (snd (readResponse serial))"

text \<open>How many of the responses \<open>rs\<close> a loop reads that stops after the first invalid one.\<close>

definition consumed :: "Response list \<Rightarrow> nat" where
  "consumed rs = (if list_all valid rs then length rs else Suc (length (takeWhile valid rs)))"

section \<open>Erase length\<close>

text \<open>
  \<open>fixupEraseLength\<close> on \<open>ulong\<close>. The model computes on \<open>nat\<close>: the sector counts are at
  most \<open>len div 4096 + 1\<close>, the first branch returns at most 16 sectors, and the
  subtraction of the second branch is taken only where \<open>tail * sectorSize < len\<close>
  (lemma \<open>fixupEraseLength_no_wrap\<close>), so no operation of the source wraps.
\<close>

definition fixupEraseLength :: "nat \<Rightarrow> nat \<Rightarrow> nat" where
  "fixupEraseLength start len =
     (let sectorSize = 4096;
          sectorsPerBlock = 16;
          start' = start div sectorSize;
          tail = sectorsPerBlock - start' mod sectorsPerBlock;
          sectors = len div sectorSize;
          sectors' = (if len mod sectorSize \<noteq> 0 then sectors + 1 else sectors)
      in if sectors' \<le> 2 * tail then (sectors' div 2 + sectors' mod 2) * sectorSize
         else len - tail * sectorSize)"

text \<open>
  The number of sectors a length covers, counted as \<open>fixupEraseLength\<close> counts them, and
  the number of sectors the ROM erases for \<open>x\<close> requested sectors when \<open>t\<close> sectors are
  left in the first block: the function \<open>f\<close> of the comment in \<open>fixupEraseLength\<close>. The ROM
  is no code of the flasher.
\<close>

definition sector_count :: "nat \<Rightarrow> nat" where
  "sector_count len = len div 4096 + (if len mod 4096 \<noteq> 0 then 1 else 0)"

definition first_block_tail :: "nat \<Rightarrow> nat" where
  "first_block_tail addr = 16 - (addr div 4096) mod 16"

definition rom_erased :: "nat \<Rightarrow> nat \<Rightarrow> nat" where
  "rom_erased x t = (if x \<le> t then 2 * x else x + t)"

section \<open>Flash parameters from a string\<close>

datatype error_code = INVALID_ARGUMENT | ABORTED

type_synonym Status = "error_code \<times> string"

definition flashMode :: "string \<rightharpoonup> int" where
  "flashMode = map_of [(''qio'', 0), (''qout'', 1), (''dio'', 2), (''dout'', 3)]"

definition flashSize :: "string \<rightharpoonup> int" where
  "flashSize = map_of [(''4m'', 0), (''2m'', 1), (''8m'', 2), (''16m'', 3), (''32m'', 4),
     (''16m-c1'', 5), (''32m-c1'', 6), (''32m-c2'', 7)]"

definition flashFreq :: "string \<rightharpoonup> int" where
  "flashFreq = map_of [(''40m'', 0), (''26m'', 1), (''20m'', 2), (''80m'', 0xf)]"

text \<open>\<open>QString::split\<close> on a separator character, empty parts kept: the parts collected
  so far end with the part \<open>cur\<close> being read.\<close>

fun split_from :: "char \<Rightarrow> string \<Rightarrow> string \<Rightarrow> string list" where
  "split_from sep cur [] = [cur]"
| "split_from sep cur (c # cs) =
     (if c = sep then cur # split_from sep [] cs else split_from sep (cur @ [c]) cs)"

definition QString_split :: "char \<Rightarrow> string \<Rightarrow> string list" where
  "QString_split sep s = split_from sep [] s"

text \<open>
  \<open>flashParamsFromString\<close>. \<open>QString::toInt(&ok, 0)\<close> belongs to Qt; it is the parameter
  \<open>toInt\<close>, \<open>None\<close> where it reports \<open>ok = false\<close>.
\<close>

definition flashParamsFromString :: "(string \<Rightarrow> int option) \<Rightarrow> string \<Rightarrow> Status + int" where
  "flashParamsFromString toInt s =
     (let parts = QString_split CHR '','' s
      in if length parts = 1 then
           (case toInt s of
              None \<Rightarrow> Inl (INVALID_ARGUMENT, ''invalid number'')
            | Some r \<Rightarrow> Inr (r AND 0xffff))
         else if length parts = 3 then
           (if flashMode (parts ! 0) = None then Inl (INVALID_ARGUMENT, ''invalid flash mode'')
            else if flashSize (parts ! 1) = None then
              Inl (INVALID_ARGUMENT, ''invalid flash size'')
            else if flashFreq (parts ! 2) = None then
              Inl (INVALID_ARGUMENT, ''invalid flash frequency'')
            else Inr (push_bit 8 (the (flashMode (parts ! 0))) OR
                      push_bit 4 (the (flashSize (parts ! 1))) OR
                      the (flashFreq (parts ! 2))))
         else Inl (INVALID_ARGUMENT,
           ''must be either a number or a comma-separated list of three items''))"

section \<open>The image map\<close>

text \<open>\<open>QMap<ulong, QByteArray>\<close>: an association list kept in ascending key order with
  one entry per key, which is the order \<open>keys()\<close> returns.\<close>

type_synonym QMap = "(nat \<times> QByteArray) list"

fun QMap_insert :: "QMap \<Rightarrow> nat \<Rightarrow> QByteArray \<Rightarrow> QMap" where
  "QMap_insert [] k v = [(k, v)]"
| "QMap_insert ((k', v') # m) k v =
     (if k < k' then (k, v) # (k', v') # m
      else if k = k' then (k, v) # m
      else (k', v') # QMap_insert m k v)"

definition QMap_contains :: "QMap \<Rightarrow> nat \<Rightarrow> bool" where
  "QMap_contains m k \<longleftrightarrow> map_of m k \<noteq> None"

definition QMap_value :: "QMap \<Rightarrow> nat \<Rightarrow> QByteArray" where
  "QMap_value m k = (case map_of m k of None \<Rightarrow> [] | Some v \<Rightarrow> v)"

definition QMap_keys :: "QMap \<Rightarrow> nat list" where
  "QMap_keys m = map fst m"

section \<open>The flasher\<close>

datatype done_message =
    FailedToTalkToBootloader
  | FailedToReadFlashParams
  | FailedToCheckForId
  | FailedToFlashImageAt nat
  | FailedToLeaveFlashingMode
  | AllDone

datatype signal =
    Done done_message bool
  | Progress int
  | StatusErasingFlashAt nat
  | StatusWritingBlock nat nat

text \<open>The members of \<open>FlasherImpl\<close>, named as in the source without the trailing
  underscore, and the signals it has emitted.\<close>

record FlasherImpl =
  images :: QMap
  port :: QSerialPort
  written_count :: int
  preserve_flash_params :: bool
  erase_bug_workaround :: bool
  override_flash_params :: int
  merge_flash_filesystem :: bool
  generate_id_if_none_found :: bool
  id_hostname :: string
  emitted :: "signal list"

subsection \<open>load\<close>

text \<open>
  What \<open>load\<close> sees of the file system: \<open>None\<close> for a directory that does not exist,
  else the entries \<open>entryInfoList\<close> returns (the readable files matching \<open>0x*.bin\<close>, by
  name). \<open>contents\<close> is what \<open>readAll\<close> returns, \<open>None\<close> where \<open>open\<close> fails.
  \<open>QString::toULong(&ok, 16)\<close> belongs to Qt and is the parameter \<open>toULong\<close>.
\<close>

record QFileInfo =
  fileName :: string
  baseName :: string
  absoluteFilePath :: string
  size' :: nat
  contents :: "QByteArray option"

datatype load_error =
    DirectoryDoesNotExist
  | NoFilesToFlash
  | NotAValidAddress string
  | FailedToOpen string
  | SizeMismatch string nat nat

fun load_files :: "(string \<Rightarrow> nat option) \<Rightarrow> QFileInfo list \<Rightarrow> QMap \<Rightarrow> load_error option \<times> QMap" where
  "load_files toULong [] m = (None, m)"
| "load_files toULong (file # files) m =
     (case toULong (baseName file) of
        None \<Rightarrow> (Some (NotAValidAddress (baseName file)), m)
      | Some addr \<Rightarrow>
          (case contents file of
             None \<Rightarrow> (Some (FailedToOpen (absoluteFilePath file)), m)
           | Some bytes \<Rightarrow>
               if length bytes \<noteq> size' file
               then (Some (SizeMismatch (fileName file) (size' file) (length bytes)), [])
               else load_files toULong files (QMap_insert m addr bytes)))"

definition load :: "(string \<Rightarrow> nat option) \<Rightarrow> QFileInfo list option \<Rightarrow> FlasherImpl \<Rightarrow>
    load_error option \<times> FlasherImpl" where
  "load toULong dir this =
     (let this' = this\<lparr>images := []\<rparr>
      in case dir of
           None \<Rightarrow> (Some DirectoryDoesNotExist, this')
         | Some files \<Rightarrow>
             if length files = 0 then (Some NoFilesToFlash, this')
             else let (err, loaded) = load_files toULong files (images this')
                  in (err, this'\<lparr>images := loaded\<rparr>))"

text \<open>
  To state what a failed \<open>load\<close> leaves behind: a file that \<open>load\<close> accepts, and the map
  after the files of a list have been put into \<open>m\<close>, one after the other. \<open>hex_name\<close> is
  a stand-in for \<open>toULong\<close> in an example; it knows two file names.
\<close>

definition loadable :: "(string \<Rightarrow> nat option) \<Rightarrow> QFileInfo \<Rightarrow> bool" where
  "loadable toULong file =
     (case toULong (baseName file) of
        None \<Rightarrow> False
      | Some addr \<Rightarrow>
          (case contents file of None \<Rightarrow> False | Some bytes \<Rightarrow> length bytes = size' file))"

fun loaded :: "(string \<Rightarrow> nat option) \<Rightarrow> QFileInfo list \<Rightarrow> QMap \<Rightarrow> QMap" where
  "loaded toULong [] m = m"
| "loaded toULong (file # files) m =
     loaded toULong files
       (QMap_insert m (the (toULong (baseName file))) (the (contents file)))"

definition hex_name :: "string \<Rightarrow> nat option" where
  "hex_name s = (if s = ''0x00000'' then Some 0 else if s = ''0x10000'' then Some 0x10000 else None)"

subsection \<open>Flash commands\<close>

definition writeBlockSize :: nat where "writeBlockSize = 0x400"
definition flashBlockSize :: nat where "flashBlockSize = 4096"
definition idBlockOffset :: nat where "idBlockOffset = 0x10000"
definition idBlockSize :: nat where "idBlockSize = flashBlockSize"

definition ESPReadFlashStub :: QByteArray where
  "ESPReadFlashStub =
     [0x80, 0x3c, 0x00, 0x40] @ [0x1c, 0x4b, 0x00, 0x40] @ [0x80, 0x00, 0x00, 0x40] @
     [0x00, 0x80, 0xfe, 0x3f] @ [0xc1, 0xfb, 0xff] @ [0xd1, 0xf8, 0xff] @ [0x2d, 0x0d] @
     [0x31, 0xfd, 0xff] @ [0x41, 0xf7, 0xff] @ [0x4a, 0xdd] @ [0x51, 0xf9, 0xff] @
     [0xc0, 0x05, 0x00] @ [0x21, 0xf9, 0xff] @ [0x31, 0xf3, 0xff] @ [0x41, 0xf5, 0xff] @
     [0xc0, 0x04, 0x00] @ [0x0b, 0xcc] @ [0x56, 0xec, 0xfd] @ [0x61, 0xf4, 0xff] @
     [0xa0, 0x06, 0x00] @ [0x00, 0x00, 0x00]"

definition emit :: "FlasherImpl \<Rightarrow> signal \<Rightarrow> FlasherImpl" where
  "emit this sig = this\<lparr>emitted := emitted this @ [sig]\<rparr>"

definition writeFlashStartLocked :: "FlasherImpl \<Rightarrow> nat \<Rightarrow> nat \<Rightarrow> bool \<times> FlasherImpl" where
  "writeFlashStartLocked this addr blocks =
     (let payload =
            (if erase_bug_workaround this
             then le32 (fixupEraseLength addr (blocks * writeBlockSize))
             else le32 (blocks * writeBlockSize)) @
            le32 blocks @ le32 writeBlockSize @ le32 addr;
          (resp, p) = readResponse (writeCommand (port this) 0x02 payload 0)
      in (ok resp, this\<lparr>port := p\<rparr>))"

definition writeFlashBlockLocked :: "FlasherImpl \<Rightarrow> nat \<Rightarrow> QByteArray \<Rightarrow> bool \<times> FlasherImpl" where
  "writeFlashBlockLocked this seq bytes =
     (let payload = le32 (length bytes) @ le32 seq @ le32 0 @ le32 0 @ bytes;
          (resp, p) = readResponse (writeCommand (port this) 0x03 payload (checksum bytes))
      in (ok resp, this\<lparr>port := p\<rparr>))"

text \<open>The loop of \<open>writeFlashLocked\<close> over the offsets \<open>start\<close> of the blocks.\<close>

function write_blocks :: "FlasherImpl \<Rightarrow> nat \<Rightarrow> QByteArray \<Rightarrow> nat \<Rightarrow> bool \<times> FlasherImpl" where
  "write_blocks this addr bytes start =
     (if start < length bytes then
        (let data = take writeBlockSize (drop start bytes);
             data' = (if length data < writeBlockSize
                      then data @ replicate (writeBlockSize - length data) 0xff else data);
             this1 = emit this (StatusWritingBlock (start div writeBlockSize) addr);
             (written, this2) = writeFlashBlockLocked this1 (start div writeBlockSize) data'
         in if \<not> written then (False, this2)
            else write_blocks
                   (emit (this2\<lparr>written_count := written_count this2 + 1\<rparr>)
                      (Progress (written_count this2 + 1)))
                   addr bytes (start + writeBlockSize))
      else (True, this))"
  by pat_completeness auto
termination
  by (relation "measure (\<lambda>(this, addr, bytes, start). length bytes - start)")
     (auto simp: writeBlockSize_def)

definition writeFlashLocked :: "FlasherImpl \<Rightarrow> nat \<Rightarrow> QByteArray \<Rightarrow> bool \<times> FlasherImpl" where
  "writeFlashLocked this addr bytes =
     (let blocks = length bytes div writeBlockSize +
                   (if length bytes mod writeBlockSize = 0 then 0 else 1);
          (started, this1) = writeFlashStartLocked (emit this (StatusErasingFlashAt addr)) addr blocks
      in if \<not> started then (False, this1) else write_blocks this1 addr bytes 0)"

definition leaveFlashingModeLocked :: "FlasherImpl \<Rightarrow> bool \<times> FlasherImpl" where
  "leaveFlashingModeLocked this =
     (let payload = [0x01, 0x00, 0x00, 0x00];
          (resp, p) = readResponse (writeCommand (port this) 0x04 payload 0);
          this' = this\<lparr>port := p\<rparr>
      in if \<not> ok resp then (if erase_bug_workaround this then (True, this') else (False, this'))
         else (True, this'))"

definition readFlashLocked :: "FlasherImpl \<Rightarrow> nat \<Rightarrow> nat \<Rightarrow> (Status + QByteArray) \<times> FlasherImpl" where
  "readFlashLocked this offset len =
     (let (started, this1) = writeFlashStartLocked this 0 0
      in if \<not> started then (Inl (ABORTED, ''failed to initialize flash''), this1)
         else
           let stub = le32 offset @ le32 len @ le32 1 @ ESPReadFlashStub;
               payload1 = le32 (length stub) @ le32 1 @ le32 (length stub) @ le32 0x40100000;
               (resp1, p1) = readResponse (writeCommand (port this1) 0x05 payload1 0)
           in if \<not> ok resp1
              then (Inl (ABORTED, ''failed to start writing to RAM''), this1\<lparr>port := p1\<rparr>)
              else
                let payload2 = le32 (length stub) @ le32 0 @ le32 0 @ le32 0 @ stub;
                    (resp2, p2) = readResponse (writeCommand p1 0x07 payload2 (checksum stub))
                in if \<not> ok resp2
                   then (Inl (ABORTED, ''failed to write to RAM''), this1\<lparr>port := p2\<rparr>)
                   else
                     let payload3 = le32 0 @ le32 0x4010001c;
                         (resp3, p3) = readResponse (writeCommand p2 0x06 payload3 0)
                     in if \<not> ok resp3
                        then (Inl (ABORTED, ''failed to initialize flash''), this1\<lparr>port := p3\<rparr>)
                        else
                          let (r, p4) = SLIP_read p3
                          in if length r < len
                             then (Inl (ABORTED, ''failed to read flash''), this1\<lparr>port := p4\<rparr>)
                             else
                               let (synced, p5) = trySync p4 5
                               in if \<not> synced
                                  then (Inl (ABORTED,
                                          ''failed to jump to bootloader after reading flash''),
                                        this1\<lparr>port := p5\<rparr>)
                                  else (Inr r, this1\<lparr>port := p5\<rparr>))"

definition readFlashParamsLocked :: "FlasherImpl \<Rightarrow> QByteArray \<times> FlasherImpl" where
  "readFlashParamsLocked this =
     (case readFlashLocked this 0 4 of
        (Inl e, this') \<Rightarrow> ([], this')
      | (Inr r, this') \<Rightarrow> if r ! 0 \<noteq> 0xE9 then ([], this') else (take 2 (drop 2 r), this'))"

subsection \<open>The ID block\<close>

text \<open>
  The functions of Qt that \<open>generateIdBlock\<close> calls, after their documentation. A
  \<open>QString\<close> is modelled by its UTF-8 bytes, as a \<open>string\<close>; \<open>toUtf8\<close> reads them as a
  \<open>QByteArray\<close>.

  \<open>QString::arg\<close> replaces every occurrence of the place marker with the lowest number
  by the argument, and returns the string unchanged when it has no marker. A marker is
  \<open>%\<close>, an optional \<open>L\<close>, and one or two decimal digits. \<open>arg_tokens\<close> cuts a string into
  its markers (with their numbers) and its other characters.

  \<open>toBase64\<close> is \<open>QByteArray::toBase64(Base64UrlEncoding | OmitTrailingEquals)\<close>.
\<close>

definition toUtf8 :: "string \<Rightarrow> QByteArray" where
  "toUtf8 s = map (\<lambda>c. of_nat (of_char c)) s"

definition digitValue :: "char \<Rightarrow> nat option" where
  "digitValue c = (let n = of_char c :: nat in if 48 \<le> n \<and> n \<le> 57 then Some (n - 48) else None)"

definition escape_at :: "string \<Rightarrow> (nat \<times> nat) option" where
  "escape_at s =
     (let (l, s1) = (case s of [] \<Rightarrow> (0, s) | c # r \<Rightarrow> if c = CHR ''L'' then (1, r) else (0, s))
      in case s1 of
           [] \<Rightarrow> None
         | c # r \<Rightarrow>
             (case digitValue c of
                None \<Rightarrow> None
              | Some d \<Rightarrow>
                  (case r of
                     [] \<Rightarrow> Some (d, l + 1)
                   | c2 # _ \<Rightarrow>
                       (case digitValue c2 of
                          None \<Rightarrow> Some (d, l + 1)
                        | Some d2 \<Rightarrow> Some (10 * d + d2, l + 2)))))"

fun arg_tokens :: "string \<Rightarrow> (nat option \<times> string) list" where
  "arg_tokens [] = []"
| "arg_tokens (c # cs) =
     (if c = CHR ''%'' then
        (case escape_at cs of
           Some (n, k) \<Rightarrow> (Some n, c # take k cs) # arg_tokens (drop k cs)
         | None \<Rightarrow> (None, [c]) # arg_tokens cs)
      else (None, [c]) # arg_tokens cs)"

fun min_escape :: "(nat option \<times> string) list \<Rightarrow> nat option" where
  "min_escape [] = None"
| "min_escape ((None, txt) # ts) = min_escape ts"
| "min_escape ((Some n, txt) # ts) =
     (case min_escape ts of None \<Rightarrow> Some n | Some m \<Rightarrow> Some (min n m))"

text \<open>The tokens of a string without a place marker.\<close>

definition lit :: "string \<Rightarrow> (nat option \<times> string) list" where
  "lit s = map (\<lambda>c. (None, [c])) s"

definition QString_arg :: "string \<Rightarrow> string \<Rightarrow> string" where
  "QString_arg s a =
     (let ts = arg_tokens s
      in case min_escape ts of
           None \<Rightarrow> s
         | Some m \<Rightarrow> concat (map (\<lambda>(n, txt). if n = Some m then a else txt) ts))"

definition base64url :: string where
  "base64url = ''ABCDEFGHIJKLMNOPQRSTUVWXYZabcdefghijklmnopqrstuvwxyz0123456789-_''"

text \<open>Three bytes give four characters of the alphabet, six bits each, the high bits
  first; what is left of the input (one or two bytes) gives two or three.\<close>

fun toBase64 :: "QByteArray \<Rightarrow> string" where
  "toBase64 (a # b # c # rest) =
     [base64url ! (unat a div 4),
      base64url ! (unat a mod 4 * 16 + unat b div 16),
      base64url ! (unat b mod 16 * 4 + unat c div 64),
      base64url ! (unat c mod 64)] @ toBase64 rest"
| "toBase64 [a, b] =
     [base64url ! (unat a div 4),
      base64url ! (unat a mod 4 * 16 + unat b div 16),
      base64url ! (unat b mod 16 * 4)]"
| "toBase64 [a] =
     [base64url ! (unat a div 4),
      base64url ! (unat a mod 4 * 16)]"
| "toBase64 [] = []"

text \<open>
  \<open>qrand i\<close> is the result of the \<open>i\<close>-th call of \<open>qrand()\<close> after the seeding; a \<open>qint16\<close>
  goes to the stream as two bytes, high byte first (the byte order of a \<open>QDataStream\<close>
  that was not told otherwise). \<open>sha1\<close> is \<open>QCryptographicHash::hash(_, Sha1)\<close>.
\<close>

definition be16 :: "int \<Rightarrow> QByteArray" where
  "be16 v = [of_int (drop_bit 8 v), of_int v]"

definition random_bytes :: "(nat \<Rightarrow> int) \<Rightarrow> QByteArray" where
  "random_bytes qrand = concat (map (\<lambda>i. be16 (qrand i AND 0xFFFF)) [0..<6])"

definition id_payload :: "(nat \<Rightarrow> int) \<Rightarrow> string \<Rightarrow> QByteArray" where
  "id_payload qrand host =
     (let random = random_bytes qrand
      in toUtf8
           (QString_arg
              (QString_arg
                 (QString_arg ''{\"id\":\"//%1/d/%2\",\"key\":\"%3\"}'' host)
                 (toBase64 (take 5 random)))
              (toBase64 (drop 5 random))))"

text \<open>\<open>repeated(idBlockSize - r.length())\<close> is empty when \<open>r\<close> is longer than the block:
  the difference, wrapped in \<open>ulong\<close>, is a negative \<open>int\<close>. On \<open>nat\<close> it is 0.\<close>

definition generateIdBlock :: "(QByteArray \<Rightarrow> QByteArray) \<Rightarrow> (nat \<Rightarrow> int) \<Rightarrow> string \<Rightarrow> QByteArray" where
  "generateIdBlock sha1 qrand host =
     (let data = id_payload qrand host;
          r = sha1 data @ data @ [0]
      in r @ replicate (idBlockSize - length r) 0xFF)"

fun index_from :: "byte \<Rightarrow> QByteArray \<Rightarrow> nat \<Rightarrow> nat option" where
  "index_from c [] i = None"
| "index_from c (x # xs) i = (if x = c then Some i else index_from c xs (Suc i))"

text \<open>\<open>QByteArray::indexOf(c, from)\<close>, \<open>None\<close> for \<open>-1\<close>.\<close>

definition indexOf :: "QByteArray \<Rightarrow> byte \<Rightarrow> nat \<Rightarrow> nat option" where
  "indexOf r c from = index_from c (drop from r) from"

text \<open>\<open>findIdLocked\<close> after its read of the block.\<close>

definition findId :: "(QByteArray \<Rightarrow> QByteArray) \<Rightarrow> QByteArray \<Rightarrow> bool" where
  "findId sha1 r =
     (let SHA1Length = 20;
          hash = take SHA1Length r
      in case indexOf r 0 SHA1Length of
           None \<Rightarrow> False
         | Some terminator \<Rightarrow>
             hash = sha1 (take (terminator - SHA1Length) (drop SHA1Length r)))"

definition findIdLocked :: "(QByteArray \<Rightarrow> QByteArray) \<Rightarrow> FlasherImpl \<Rightarrow> (Status + bool) \<times> FlasherImpl" where
  "findIdLocked sha1 this =
     (case readFlashLocked this idBlockOffset idBlockSize of
        (Inl e, this') \<Rightarrow> (Inl e, this')
      | (Inr r, this') \<Rightarrow> (Inr (findId sha1 r), this'))"

subsection \<open>run\<close>

text \<open>
  \<open>run\<close> in the order of the source, one definition for each of its steps. \<open>flashParams\<close>
  is an \<open>int\<close>; a \<open>char\<close> in an arithmetic expression is promoted to \<open>int\<close> with its sign
  (\<open>sint\<close>), \<open>>>\<close> on an \<open>int\<close> is the arithmetic shift (\<open>drop_bit\<close>), and an \<open>int\<close> stored in
  a \<open>char\<close> keeps its low eight bits (\<open>of_int\<close>). All values stay within 32 bits.

  The step that determines \<open>flashParams\<close>: \<open>None\<close> is the return after
  \<open>done(failed to read flash params ...)\<close>.
\<close>

definition run_flash_params :: "FlasherImpl \<Rightarrow> int option \<times> FlasherImpl" where
  "run_flash_params this =
     (if override_flash_params this \<ge> 0 then (Some (override_flash_params this), this)
      else if preserve_flash_params this then
        (let (params, this') = readFlashParamsLocked this
         in if length params = 2
            then (Some (push_bit 8 (sint (params ! 0)) OR sint (params ! 1)), this')
            else (None, emit this' (Done FailedToReadFlashParams False)))
      else (Some (- 1), this))"

text \<open>The step that adjusts the image at address 0 and reads \<open>flashParams\<close> back from it.\<close>

definition run_patch_image :: "int \<Rightarrow> FlasherImpl \<Rightarrow> int \<times> FlasherImpl" where
  "run_patch_image flashParams this =
     (if QMap_contains (images this) 0 \<and> length (QMap_value (images this) 0) \<ge> 4 \<and>
         QMap_value (images this) 0 ! 0 = 0xE9
      then
        let this' =
              (if flashParams \<ge> 0
               then this\<lparr>images := QMap_insert (images this) 0
                      ((QMap_value (images this) 0)
                         [2 := of_int (drop_bit 8 flashParams AND 0xff),
                          3 := of_int (flashParams AND 0xff)])\<rparr>
               else this);
            image = QMap_value (images this') 0
        in (push_bit 8 (sint (image ! 2)) OR sint (image ! 3), this')
      else (flashParams, this))"

text \<open>The step that generates an ID block: \<open>False\<close> is the return after
  \<open>done(failed to check for ID presence)\<close>.\<close>

definition run_generate_id :: "(QByteArray \<Rightarrow> QByteArray) \<Rightarrow> (nat \<Rightarrow> int) \<Rightarrow> FlasherImpl \<Rightarrow>
    bool \<times> FlasherImpl" where
  "run_generate_id sha1 qrand this =
     (if generate_id_if_none_found this then
        (case findIdLocked sha1 this of
           (Inr found, this') \<Rightarrow>
             (True,
              if \<not> found
              then this'\<lparr>images := QMap_insert (images this') idBlockOffset
                     (generateIdBlock sha1 qrand (id_hostname this'))\<rparr>
              else this')
         | (Inl e, this') \<Rightarrow> (False, emit this' (Done FailedToCheckForId False)))
      else (True, this))"

text \<open>The inner loop over the attempts to write one image, with the number of
  iterations left, and the outer loop over the addresses; \<open>Some addr\<close> is the return after
  \<open>done(failed to flash image at addr)\<close>.\<close>

fun write_attempts :: "nat \<Rightarrow> int \<Rightarrow> nat \<Rightarrow> FlasherImpl \<Rightarrow> bool \<times> FlasherImpl" where
  "write_attempts 0 written addr this = (False, this)"
| "write_attempts (Suc n) written addr this =
     (let (success, this1) = writeFlashLocked this addr (QMap_value (images this) addr)
      in if success then (True, this1)
         else
           let this2 = emit (this1\<lparr>written_count := written\<rparr>) (Progress written);
               (booted, p) = rebootIntoBootloader (port this2);
               this3 = this2\<lparr>port := p\<rparr>
           in if \<not> booted then (False, this3) else write_attempts n written addr this3)"

fun run_write_images :: "FlasherImpl \<Rightarrow> nat list \<Rightarrow> nat option \<times> FlasherImpl" where
  "run_write_images this [] = (None, this)"
| "run_write_images this (addr # addrs) =
     (let (success, this') = write_attempts 3 (written_count this) addr this
      in if \<not> success then (Some addr, emit this' (Done (FailedToFlashImageAt addr) False))
         else run_write_images this' addrs)"

text \<open>The last step, the \<open>switch\<close> on the mode byte of \<open>flashParams\<close>.\<close>

definition run_finish :: "int \<Rightarrow> FlasherImpl \<Rightarrow> FlasherImpl" where
  "run_finish flashParams this =
     (if drop_bit 8 flashParams AND 0xff = 2
      then emit (this\<lparr>port := rebootIntoFirmware (port this)\<rparr>) (Done AllDone True)
      else
        let (left, this') = leaveFlashingModeLocked this
        in if \<not> left then emit this' (Done FailedToLeaveFlashingMode False)
           else emit this' (Done AllDone True))"

text \<open>
  \<open>run\<close> up to its last step: \<open>None\<close> where \<open>run\<close> has returned before it, after a
  \<open>done(_, false)\<close>; else the value of \<open>flashParams\<close> at the \<open>switch\<close>, all images being
  written.
\<close>

definition run_images :: "(QByteArray \<Rightarrow> QByteArray) \<Rightarrow> (nat \<Rightarrow> int) \<Rightarrow> FlasherImpl \<Rightarrow>
    int option \<times> FlasherImpl" where
  "run_images sha1 qrand this =
     (let (booted, p) = rebootIntoBootloader (port this);
          this1 = this\<lparr>port := p\<rparr>
      in if \<not> booted then (None, emit this1 (Done FailedToTalkToBootloader False))
         else
           case run_flash_params this1 of
             (None, this2) \<Rightarrow> (None, this2)
           | (Some flashParams, this2) \<Rightarrow>
               let (flashParams', this3) = run_patch_image flashParams this2
               in case run_generate_id sha1 qrand this3 of
                    (False, this4) \<Rightarrow> (None, this4)
                  | (True, this4) \<Rightarrow>
                      (case run_write_images (this4\<lparr>written_count := 0\<rparr>)
                              (QMap_keys (images this4)) of
                         (Some addr, this5) \<Rightarrow> (None, this5)
                       | (None, this5) \<Rightarrow> (Some flashParams', this5)))"

definition run :: "(QByteArray \<Rightarrow> QByteArray) \<Rightarrow> (nat \<Rightarrow> int) \<Rightarrow> FlasherImpl \<Rightarrow> FlasherImpl" where
  "run sha1 qrand this =
     (case run_images sha1 qrand this of
        (None, this') \<Rightarrow> this'
      | (Some flashParams, this') \<Rightarrow> run_finish flashParams this')"

section \<open>Devices for the examples\<close>

text \<open>
  The bytes a device sends: a response with status 0 and one with status 1 to a command,
  and the eight responses that answer a \<open>sync\<close>, followed by \<open>rest\<close>.
\<close>

definition ok_response :: "byte \<Rightarrow> QByteArray" where
  "ok_response cmd = [1, cmd, 2, 0, 0, 0, 0, 0, 0, 0]"

definition failed_response :: "byte \<Rightarrow> QByteArray" where
  "failed_response cmd = [1, cmd, 2, 0, 0, 0, 0, 0, 1, 6]"

definition sync_responses :: "QByteArray \<Rightarrow> QByteArray" where
  "sync_responses rest =
     SLIP_encode (ok_response 8) @ SLIP_encode (ok_response 8) @
     SLIP_encode (ok_response 8) @ SLIP_encode (ok_response 8) @
     SLIP_encode (ok_response 8) @ SLIP_encode (ok_response 8) @
     SLIP_encode (ok_response 8) @ SLIP_encode (ok_response 8) @ rest"

text \<open>
  A flasher with one image at address 0 whose header has the mode byte \<open>mode\<close>, on a
  device that answers the sync, the start of the write and the one block, and refuses
  whatever comes next.
\<close>

definition boot_flasher :: "byte \<Rightarrow> bool \<Rightarrow> FlasherImpl" where
  "boot_flasher mode workaround =
     \<lparr>images = [(0, [0xE9, 0x00, mode, 0x40])],
      port = \<lparr>rx = sync_responses (SLIP_encode (ok_response 2) @ SLIP_encode (ok_response 3) @
                       SLIP_encode (failed_response 4)),
               tx = [], ctl = []\<rparr>,
      written_count = 0, preserve_flash_params = False, erase_bug_workaround = workaround,
      override_flash_params = - 1, merge_flash_filesystem = False,
      generate_id_if_none_found = False, id_hostname = [], emitted = []\<rparr>"

text \<open>
  A flasher with one image at address 0 whose header is \<open>E9 00 02 90\<close>, DIO mode and a
  size byte of \<open>0x90\<close>, with no override and nothing kept from the device; the device
  answers the sync, the start of the write, the one block, and a \<open>flash_end\<close>.
\<close>

definition dio_flasher :: FlasherImpl where
  "dio_flasher =
     \<lparr>images = [(0, [0xE9, 0x00, 0x02, 0x90])],
      port = \<lparr>rx = sync_responses (SLIP_encode (ok_response 2) @ SLIP_encode (ok_response 3) @
                       SLIP_encode (ok_response 4)),
               tx = [], ctl = []\<rparr>,
      written_count = 0, preserve_flash_params = False, erase_bug_workaround = True,
      override_flash_params = - 1, merge_flash_filesystem = False,
      generate_id_if_none_found = False, id_hostname = [], emitted = []\<rparr>"

text \<open>
  A flasher that keeps the flash parameters of the device: the device answers the sync,
  the four commands that load and start the read stub, sends the four bytes of its flash
  header \<open>E9 00 a b\<close>, answers the sync after its reset, and then the write of the image
  and the \<open>flash_end\<close>.
\<close>

definition preserve_flasher :: "byte \<Rightarrow> byte \<Rightarrow> FlasherImpl" where
  "preserve_flasher a b =
     \<lparr>images = [(0, [0xE9, 0x00, 0x00, 0x40])],
      port = \<lparr>rx = sync_responses
                    (SLIP_encode (ok_response 2) @ SLIP_encode (ok_response 5) @
                     SLIP_encode (ok_response 7) @ SLIP_encode (ok_response 6) @
                     SLIP_encode [0xE9, 0x00, a, b] @
                     sync_responses
                       (SLIP_encode (ok_response 2) @ SLIP_encode (ok_response 3) @
                        SLIP_encode (ok_response 4))),
               tx = [], ctl = []\<rparr>,
      written_count = 0, preserve_flash_params = True, erase_bug_workaround = True,
      override_flash_params = - 1, merge_flash_filesystem = False,
      generate_id_if_none_found = False, id_hostname = [], emitted = []\<rparr>"

section \<open>Properties of the SLIP codec\<close>

lemma SLIP_frame_put:
  "SLIP_frame ret (SLIP_put c @ rest) = SLIP_frame (ret @ [c]) rest"
  by (simp add: SLIP_put_def SLIPFrameDelimiter_def SLIPEscape_def
      SLIPEscapeFrameDelimiter_def SLIPEscapeEscape_def)

lemma SLIP_frame_put_all:
  "SLIP_frame ret (SLIP_put_all bytes @ SLIPFrameDelimiter # rest) = (ret @ bytes, rest)"
proof (induction bytes arbitrary: ret)
  case Nil
  show ?case by simp
next
  case (Cons c cs)
  have "SLIP_frame ret (SLIP_put_all (c # cs) @ SLIPFrameDelimiter # rest) =
        SLIP_frame (ret @ [c]) (SLIP_put_all cs @ SLIPFrameDelimiter # rest)"
    by (simp add: SLIP_frame_put)
  then show ?case by (simp add: Cons.IH)
qed

lemma SLIP_skip_noise:
  "SLIPFrameDelimiter \<notin> set noise \<Longrightarrow> SLIP_skip (noise @ SLIPFrameDelimiter # rest) = Some rest"
  by (induction noise) auto

lemma SLIP_decode_encode_stream:
  "SLIPFrameDelimiter \<notin> set noise \<Longrightarrow>
   SLIP_decode (noise @ SLIP_encode bytes @ rest) = (bytes, rest)"
  by (simp add: SLIP_decode_def SLIP_encode_def SLIP_skip_noise SLIP_frame_put_all)

lemma SLIP_put_all_concat:
  "SLIP_put_all b = concat (map (\<lambda>c. if c = 0xC0 then [0xDB, 0xDC]
                                    else if c = 0xDB then [0xDB, 0xDD] else [c]) b)"
  by (induction b)
     (simp_all add: SLIP_put_def SLIPFrameDelimiter_def SLIPEscape_def
        SLIPEscapeFrameDelimiter_def SLIPEscapeEscape_def)

text \<open>
  C3. \<open>SLIP_read\<close> skips what stands before the first frame delimiter, and on the bytes
  that \<open>SLIP_write\<close> puts on the line for a byte sequence it returns that sequence,
  whatever its bytes, and leaves unread what follows the frame. The encoder emits a
  delimiter, \<open>C0\<close> as \<open>DB DC\<close>, \<open>DB\<close> as \<open>DB DD\<close>, other bytes unchanged,
  delimiter.
\<close>

theorem SLIP_roundtrip:
  assumes "0xC0 \<notin> set noise"
  shows "SLIP_read (p\<lparr>rx := noise @ tx (SLIP_write (p\<lparr>tx := []\<rparr>) b) @ rest\<rparr>) =
           (b, p\<lparr>rx := rest\<rparr>)
       \<and> tx (SLIP_write p b) = tx p @ SLIP_encode b
       \<and> SLIP_encode b =
           [0xC0] @
           concat (map (\<lambda>c. if c = 0xC0 then [0xDB, 0xDC]
                            else if c = 0xDB then [0xDB, 0xDD] else [c]) b) @
           [0xC0]"
proof -
  have "SLIPFrameDelimiter \<notin> set noise"
    using assms by (simp add: SLIPFrameDelimiter_def)
  then have "SLIP_decode (noise @ SLIP_encode b @ rest) = (b, rest)"
    by (rule SLIP_decode_encode_stream)
  then have "SLIP_read (p\<lparr>rx := noise @ tx (SLIP_write (p\<lparr>tx := []\<rparr>) b) @ rest\<rparr>) =
           (b, p\<lparr>rx := rest\<rparr>)"
    by (simp add: SLIP_read_def SLIP_write_def)
  moreover have "tx (SLIP_write p b) = tx p @ SLIP_encode b"
    by (simp add: SLIP_write_def)
  moreover have "SLIP_encode b =
           [0xC0] @
           concat (map (\<lambda>c. if c = 0xC0 then [0xDB, 0xDC]
                            else if c = 0xDB then [0xDB, 0xDD] else [c]) b) @
           [0xC0]"
    by (simp add: SLIP_encode_def SLIPFrameDelimiter_def SLIP_put_all_concat)
  ultimately show ?thesis by (intro conjI)
qed

text \<open>The bytes \<open>C0 DB 01\<close>, after two bytes of noise and before one more byte.\<close>

theorem SLIP_roundtrip_witness:
  "(0xC0::byte) \<notin> set [0x00, 0xDB]
   \<and> SLIP_encode [0xC0, 0xDB, 0x01] = [0xC0, 0xDB, 0xDC, 0xDB, 0xDD, 0x01, 0xC0]
   \<and> SLIP_read \<lparr>rx = [0x00, 0xDB] @ [0xC0, 0xDB, 0xDC, 0xDB, 0xDD, 0x01, 0xC0] @ [0x07],
                 tx = [], ctl = []\<rparr> =
       ([0xC0, 0xDB, 0x01], \<lparr>rx = [0x07], tx = [], ctl = []\<rparr>)"
  using SLIP_roundtrip [of "[0x00, 0xDB]" "\<lparr>rx = [], tx = [], ctl = []\<rparr>" "[0xC0, 0xDB, 0x01]" "[0x07]"]
  by (simp add: SLIP_write_def SLIP_encode_def SLIP_put_def SLIPFrameDelimiter_def
      SLIPEscape_def SLIPEscapeFrameDelimiter_def SLIPEscapeEscape_def)


section \<open>Properties of the command channel\<close>

lemma tx_SLIP_read: "tx (snd (SLIP_read p)) = tx p" "ctl (snd (SLIP_read p)) = ctl p"
  by (simp_all add: SLIP_read_def split: prod.splits)

lemma readResponse_alt:
  "readResponse p = (parseResponse (fst (SLIP_read p)), snd (SLIP_read p))"
  by (simp add: readResponse_def split: prod.splits)

lemma tx_readResponse: "tx (snd (readResponse p)) = tx p" "ctl (snd (readResponse p)) = ctl p"
  by (simp_all add: readResponse_alt tx_SLIP_read)

lemma tx_writeCommand:
  "tx (writeCommand p cmd payload csum) = tx p @ SLIP_encode (command_frame cmd payload csum)"
  "rx (writeCommand p cmd payload csum) = rx p"
  "ctl (writeCommand p cmd payload csum) = ctl p"
  by (simp_all add: writeCommand_def SLIP_write_def)

lemma tx_after_responses: "tx (after_responses k p) = tx p"
  by (induction k arbitrary: p) (simp_all add: tx_readResponse)

lemma sync_loop_ok: "fst (sync_loop n s) = list_all valid (responses n s)"
  by (induction n arbitrary: s) (auto split: prod.splits)

lemma sync_loop_port: "snd (sync_loop n s) = after_responses (consumed (responses n s)) s"
  by (induction n arbitrary: s) (auto simp: consumed_def split: prod.splits)

lemma length_responses: "length (responses n s) = n"
  by (induction n arbitrary: s) (auto split: prod.splits)

lemma sync_frame:
  "command_frame 0x08 sync_payload 0 =
     [0x00, 0x08, 0x24, 0x00, 0x00, 0x00, 0x00, 0x00] @ [0x07, 0x07, 0x12, 0x20] @ replicate 32 0x55"
  by (simp add: command_frame_def sync_payload_def le16_def le32_def)

lemma SLIP_read_frame:
  "SLIP_read \<lparr>rx = SLIP_encode f @ rest, tx = t, ctl = c\<rparr> = (f, \<lparr>rx = rest, tx = t, ctl = c\<rparr>)"
  using SLIP_decode_encode_stream[of "[]" f rest] by (simp add: SLIP_read_def)

lemma SLIP_read_last:
  "SLIP_read \<lparr>rx = SLIP_encode f, tx = t, ctl = c\<rparr> = (f, \<lparr>rx = [], tx = t, ctl = c\<rparr>)"
  using SLIP_read_frame[of f "[]" t c] by simp

lemma SLIP_read_empty:
  "SLIP_read \<lparr>rx = [], tx = t, ctl = c\<rparr> = ([], \<lparr>rx = [], tx = t, ctl = c\<rparr>)"
  by (simp add: SLIP_read_def SLIP_decode_def)

lemma readResponse_frame:
  "readResponse \<lparr>rx = SLIP_encode f @ rest, tx = t, ctl = c\<rparr> =
     (parseResponse f, \<lparr>rx = rest, tx = t, ctl = c\<rparr>)"
  by (simp add: readResponse_alt SLIP_read_frame)

lemma readResponse_last:
  "readResponse \<lparr>rx = SLIP_encode f, tx = t, ctl = c\<rparr> =
     (parseResponse f, \<lparr>rx = [], tx = t, ctl = c\<rparr>)"
  by (simp add: readResponse_alt SLIP_read_last)

lemma readResponse_empty:
  "readResponse \<lparr>rx = [], tx = t, ctl = c\<rparr> = (Response_init, \<lparr>rx = [], tx = t, ctl = c\<rparr>)"
  by (simp add: readResponse_alt SLIP_read_empty parseResponse_def)

lemma writeCommand_port:
  "writeCommand \<lparr>rx = r, tx = t, ctl = c\<rparr> cmd payload csum =
     \<lparr>rx = r, tx = t @ SLIP_encode (command_frame cmd payload csum), ctl = c\<rparr>"
  by (simp add: writeCommand_def SLIP_write_def)

lemma parseResponse_status:
  "parseResponse [1, cmd, 2, 0, v0, v1, v2, v3, s, e] =
     \<lparr>command = cmd, val = [v0, v1, v2, v3], body = [s, e], status = s, lastError = e,
      valid = True\<rparr>"
  by (simp add: parseResponse_def frame_size_def)

lemma parseResponse_short: "length f < 10 \<Longrightarrow> parseResponse f = Response_init"
  by (simp add: parseResponse_def)

lemma valid_parseResponse: "valid (parseResponse f) \<longleftrightarrow> 10 \<le> length f \<and> f ! 0 = 1"
  by (auto simp: parseResponse_def Response_init_def Let_def)

text \<open>
  C6. \<open>sync\<close> puts on the line the frame of command \<open>0x08\<close> with the payload
  \<open>07 07 12 20\<close> and 32 bytes \<open>0x55\<close>; its result is true exactly when the eight
  responses read after the command are all valid; it reads the responses up to and
  including the first invalid one, at most eight, and no more.
\<close>

theorem sync_all_eight:
  "tx (snd (sync p)) =
     tx p @ SLIP_encode ([0x00, 0x08, 0x24, 0x00, 0x00, 0x00, 0x00, 0x00] @
                         [0x07, 0x07, 0x12, 0x20] @ replicate 32 0x55)
   \<and> fst (sync p) = list_all valid (responses 8 (writeCommand p 0x08 sync_payload 0))
   \<and> snd (sync p) =
       after_responses (consumed (responses 8 (writeCommand p 0x08 sync_payload 0)))
         (writeCommand p 0x08 sync_payload 0)
   \<and> consumed (responses 8 (writeCommand p 0x08 sync_payload 0)) \<le> 8"
proof -
  let ?q = "writeCommand p 0x08 sync_payload 0"
  have a: "fst (sync p) = list_all valid (responses 8 ?q)"
    by (simp only: sync_def sync_loop_ok)
  have b: "snd (sync p) = after_responses (consumed (responses 8 ?q)) ?q"
    by (simp only: sync_def sync_loop_port)
  have "tx (snd (sync p)) = tx ?q"
    by (simp only: b tx_after_responses)
  then have c: "tx (snd (sync p)) =
     tx p @ SLIP_encode ([0x00, 0x08, 0x24, 0x00, 0x00, 0x00, 0x00, 0x00] @
                         [0x07, 0x07, 0x12, 0x20] @ replicate 32 0x55)"
    by (simp only: tx_writeCommand sync_frame)
  have "length (takeWhile valid (responses 8 ?q)) \<le> 8"
    using length_takeWhile_le[of valid "responses 8 ?q"] by (simp add: length_responses)
  moreover have "length (takeWhile valid (responses 8 ?q)) \<noteq> 8"
    if "\<not> list_all valid (responses 8 ?q)"
  proof
    assume "length (takeWhile valid (responses 8 ?q)) = 8"
    then have "length (takeWhile valid (responses 8 ?q)) = length (responses 8 ?q)"
      by (simp only: length_responses)
    then have "takeWhile valid (responses 8 ?q) = responses 8 ?q"
      by (metis takeWhile_dropWhile_id append_eq_conv_conj length_0_conv length_append add_cancel_left_right append_Nil2 add_diff_cancel_left' length_drop)
    then have "list_all valid (responses 8 ?q)"
      by (simp add: list_all_iff takeWhile_eq_all_conv)
    with that show False by simp
  qed
  ultimately have d: "consumed (responses 8 ?q) \<le> 8"
    unfolding consumed_def length_responses by (cases "list_all valid (responses 8 ?q)") auto
  from a b c d show ?thesis by blast
qed

text \<open>Eight valid responses make \<open>sync\<close> succeed; one valid response followed by an
  invalid one (a frame of one byte) does not, whatever follows.\<close>

theorem sync_all_eight_witness:
  "fst (sync \<lparr>rx = SLIP_encode [1, 8, 2, 0, 0, 0, 0, 0, 0, 0] @
                   SLIP_encode [1, 8, 2, 0, 0, 0, 0, 0, 0, 0] @
                   SLIP_encode [1, 8, 2, 0, 0, 0, 0, 0, 0, 0] @
                   SLIP_encode [1, 8, 2, 0, 0, 0, 0, 0, 0, 0] @
                   SLIP_encode [1, 8, 2, 0, 0, 0, 0, 0, 0, 0] @
                   SLIP_encode [1, 8, 2, 0, 0, 0, 0, 0, 0, 0] @
                   SLIP_encode [1, 8, 2, 0, 0, 0, 0, 0, 0, 0] @
                   SLIP_encode [1, 8, 2, 0, 0, 0, 0, 0, 0, 0], tx = [], ctl = []\<rparr>)
   \<and> \<not> fst (sync \<lparr>rx = SLIP_encode [1, 8, 2, 0, 0, 0, 0, 0, 0, 0] @
                     SLIP_encode [0] @
                     SLIP_encode [1, 8, 2, 0, 0, 0, 0, 0, 0, 0] @
                     SLIP_encode [1, 8, 2, 0, 0, 0, 0, 0, 0, 0] @
                     SLIP_encode [1, 8, 2, 0, 0, 0, 0, 0, 0, 0] @
                     SLIP_encode [1, 8, 2, 0, 0, 0, 0, 0, 0, 0] @
                     SLIP_encode [1, 8, 2, 0, 0, 0, 0, 0, 0, 0] @
                     SLIP_encode [1, 8, 2, 0, 0, 0, 0, 0, 0, 0], tx = [], ctl = []\<rparr>)"
  using
    sync_all_eight [of "\<lparr>rx = SLIP_encode [1, 8, 2, 0, 0, 0, 0, 0, 0, 0] @
                   SLIP_encode [1, 8, 2, 0, 0, 0, 0, 0, 0, 0] @
                   SLIP_encode [1, 8, 2, 0, 0, 0, 0, 0, 0, 0] @
                   SLIP_encode [1, 8, 2, 0, 0, 0, 0, 0, 0, 0] @
                   SLIP_encode [1, 8, 2, 0, 0, 0, 0, 0, 0, 0] @
                   SLIP_encode [1, 8, 2, 0, 0, 0, 0, 0, 0, 0] @
                   SLIP_encode [1, 8, 2, 0, 0, 0, 0, 0, 0, 0] @
                   SLIP_encode [1, 8, 2, 0, 0, 0, 0, 0, 0, 0], tx = [], ctl = []\<rparr>"]
    sync_all_eight [of "\<lparr>rx = SLIP_encode [1, 8, 2, 0, 0, 0, 0, 0, 0, 0] @
                     SLIP_encode [0] @
                     SLIP_encode [1, 8, 2, 0, 0, 0, 0, 0, 0, 0] @
                     SLIP_encode [1, 8, 2, 0, 0, 0, 0, 0, 0, 0] @
                     SLIP_encode [1, 8, 2, 0, 0, 0, 0, 0, 0, 0] @
                     SLIP_encode [1, 8, 2, 0, 0, 0, 0, 0, 0, 0] @
                     SLIP_encode [1, 8, 2, 0, 0, 0, 0, 0, 0, 0] @
                     SLIP_encode [1, 8, 2, 0, 0, 0, 0, 0, 0, 0], tx = [], ctl = []\<rparr>"]
  by (simp add: writeCommand_port readResponse_frame readResponse_last readResponse_empty
      parseResponse_status parseResponse_short Response_init_def eval_nat_numeral)

text \<open>
  C10, as amended. A response is valid only if its frame has at least 10 bytes. A frame
  that is well formed, that is, as long as its 8 header bytes and the body it declares,
  and declares a body of fewer than 2 bytes, gives a response that is not valid and not
  ok.
\<close>

theorem readResponse_wellformed_short_body:
  "(valid (fst (readResponse p)) \<longrightarrow> 10 \<le> length (fst (SLIP_read p)))
   \<and> (length (fst (SLIP_read p)) = 8 + frame_size (fst (SLIP_read p)) \<and>
        frame_size (fst (SLIP_read p)) < 2 \<longrightarrow>
        \<not> valid (fst (readResponse p)) \<and> \<not> ok (fst (readResponse p)))"
  by (auto simp: readResponse_alt valid_parseResponse ok_def)

text \<open>A well-formed response with an empty body.\<close>

theorem readResponse_wellformed_short_body_witness:
  "length (fst (SLIP_read \<lparr>rx = SLIP_encode [1, 8, 0, 0, 0, 0, 0, 0], tx = [], ctl = []\<rparr>)) =
     8 + frame_size (fst (SLIP_read \<lparr>rx = SLIP_encode [1, 8, 0, 0, 0, 0, 0, 0], tx = [], ctl = []\<rparr>))
   \<and> frame_size (fst (SLIP_read \<lparr>rx = SLIP_encode [1, 8, 0, 0, 0, 0, 0, 0], tx = [], ctl = []\<rparr>)) < 2
   \<and> \<not> valid (fst (readResponse \<lparr>rx = SLIP_encode [1, 8, 0, 0, 0, 0, 0, 0], tx = [], ctl = []\<rparr>))
   \<and> \<not> ok (fst (readResponse \<lparr>rx = SLIP_encode [1, 8, 0, 0, 0, 0, 0, 0], tx = [], ctl = []\<rparr>))"
  using readResponse_wellformed_short_body
    [of "\<lparr>rx = SLIP_encode [1, 8, 0, 0, 0, 0, 0, 0], tx = [], ctl = []\<rparr>"]
  by (simp add: SLIP_read_last frame_size_def)

text \<open>
  C10 without the condition on the length, for every frame that declares a body of
  fewer than 2 bytes, fails on a frame of 10 bytes whose size field is 0: the response is valid, and
  ok.
\<close>

theorem readResponse_short_body_counterexample:
  "fst (SLIP_read \<lparr>rx = SLIP_encode [1, 8, 0, 0, 0, 0, 0, 0, 0xAA, 0xBB], tx = [], ctl = []\<rparr>) =
     [1, 8, 0, 0, 0, 0, 0, 0, 0xAA, 0xBB]
   \<and> frame_size [1, 8, 0, 0, 0, 0, 0, 0, 0xAA, 0xBB] = 0
   \<and> valid (fst (readResponse \<lparr>rx = SLIP_encode [1, 8, 0, 0, 0, 0, 0, 0, 0xAA, 0xBB], tx = [], ctl = []\<rparr>))
   \<and> ok (fst (readResponse \<lparr>rx = SLIP_encode [1, 8, 0, 0, 0, 0, 0, 0, 0xAA, 0xBB], tx = [], ctl = []\<rparr>))"
  by (simp add: readResponse_last SLIP_read_last parseResponse_def frame_size_def ok_def)

section \<open>Properties of the erase length\<close>

lemma fixupEraseLength_no_wrap:
  "\<not> sector_count len \<le> 2 * first_block_tail addr \<Longrightarrow> first_block_tail addr * 4096 < len"
  by (auto simp: sector_count_def first_block_tail_def split: if_splits)

lemma fixupEraseLength_alt:
  "fixupEraseLength addr len =
     (if sector_count len \<le> 2 * first_block_tail addr
      then (sector_count len div 2 + sector_count len mod 2) * 4096
      else len - first_block_tail addr * 4096)"
  by (simp add: fixupEraseLength_def sector_count_def first_block_tail_def Let_def)

lemma sector_count_mult: "sector_count (k * 4096) = k"
  by (simp add: sector_count_def)

lemma sector_count_diff:
  "t * 4096 \<le> len \<Longrightarrow> sector_count (len - t * 4096) = sector_count len - t"
proof -
  assume a: "t * 4096 \<le> len"
  then obtain d where d: "len = d + t * 4096" by (metis le_add_diff_inverse2)
  show ?thesis unfolding d by (simp add: sector_count_def)
qed

lemma sector_count_ceil: "sector_count len = (len + 4095) div 4096"
proof -
  define q where "q = len div 4096"
  define r where "r = len mod 4096"
  have len: "len = q * 4096 + r" and r: "r < 4096"
    by (simp_all add: q_def r_def)
  have "(r + 4095) div 4096 = (if r \<noteq> 0 then 1 else 0)"
    using r by (simp add: div_nat_eqI)
  then have "(len + 4095) div 4096 = q + (if r \<noteq> 0 then 1 else 0)"
    unfolding len by (simp add: add.assoc)
  then show ?thesis
    by (simp add: sector_count_def q_def r_def)
qed
lemma first_block_tail_range: "1 \<le> first_block_tail addr \<and> first_block_tail addr \<le> 16"
proof -
  have "(addr div 4096) mod 16 < 16" by simp
  then show ?thesis unfolding first_block_tail_def by linarith
qed

text \<open>
  C2. With \<open>x\<close> the number of sectors that \<open>len\<close> covers (\<open>len / 4096\<close> rounded up) and
  \<open>t\<close> the sectors left in the first block, the ROM, given the length that
  \<open>fixupEraseLength\<close> returns, erases \<open>x\<close> sectors, or \<open>x + 1\<close> exactly when \<open>x\<close> is odd and
  at most \<open>2 t\<close>. The length returned is counted in sectors as \<open>len\<close> is, rounded up. This
  holds for every \<open>len\<close>, also 0.
\<close>

theorem fixupEraseLength_erases:
  "rom_erased (sector_count (fixupEraseLength addr len)) (first_block_tail addr) \<in>
     {sector_count len, sector_count len + sector_count len mod 2}
   \<and> rom_erased (sector_count (fixupEraseLength addr len)) (first_block_tail addr) =
     (if odd (sector_count len) \<and> sector_count len \<le> 2 * first_block_tail addr
      then sector_count len + 1 else sector_count len)
   \<and> sector_count len = (len + 4095) div 4096"
proof -
  note ceil = sector_count_ceil [of len]
  define x where "x = sector_count len"
  define t where "t = first_block_tail addr"
  show ?thesis
  proof (cases "x \<le> 2 * t")
    case True
    then have "fixupEraseLength addr len = (x div 2 + x mod 2) * 4096"
      by (simp add: fixupEraseLength_alt x_def t_def)
    then have y: "sector_count (fixupEraseLength addr len) = x div 2 + x mod 2"
      by (simp only: sector_count_mult)
    from True have "x div 2 + x mod 2 \<le> t" by presburger
    then have "rom_erased (x div 2 + x mod 2) t = 2 * (x div 2 + x mod 2)"
      by (simp add: rom_erased_def)
    also have "\<dots> = x + x mod 2" by presburger
    finally have r: "rom_erased (sector_count (fixupEraseLength addr len)) t = x + x mod 2"
      by (simp add: y)
    have "x + x mod 2 = (if odd x then x + 1 else x)" by presburger
    with r True ceil show ?thesis unfolding x_def[symmetric] t_def[symmetric] by auto
  next
    case False
    then have lt: "t * 4096 < len"
      using fixupEraseLength_no_wrap[of len addr] by (simp add: x_def t_def)
    from False have y: "sector_count (fixupEraseLength addr len) = x - t"
      using lt by (simp add: fixupEraseLength_alt x_def t_def sector_count_diff)
    from False have "\<not> x - t \<le> t" by simp
    then have "rom_erased (x - t) t = x" using False by (simp add: rom_erased_def)
    with y False ceil show ?thesis unfolding x_def[symmetric] t_def[symmetric] by auto
  qed
qed


text \<open>Three sectors wanted, one sector and sixteen sectors before the end of the block:
  three and four sectors erased; and two lengths at a block boundary.\<close>

theorem fixupEraseLength_erases_witness:
  "fixupEraseLength 0x10000 0x4000 = 0x2000
   \<and> fixupEraseLength 0x10000 0x100000 = 0xF0000
   \<and> fixupEraseLength 0x1F000 0x2400 = 0x1400
   \<and> sector_count 0x2400 = 3 \<and> first_block_tail 0x1F000 = 1
   \<and> rom_erased (sector_count (fixupEraseLength 0x1F000 0x2400)) (first_block_tail 0x1F000) = 3
   \<and> rom_erased (sector_count (fixupEraseLength 0x10000 0x2400)) (first_block_tail 0x10000) = 4"
  using fixupEraseLength_erases [of "0x1F000" "0x2400"]
    fixupEraseLength_erases [of "0x10000" "0x2400"]
  by (simp add: fixupEraseLength_def sector_count_def first_block_tail_def)


section \<open>Properties of the last step of run\<close>

lemma ok_ok_response: "ok (parseResponse (ok_response cmd))" "valid (parseResponse (ok_response cmd))"
  by (simp_all add: ok_response_def parseResponse_status ok_def)

lemma ok_failed_response: "\<not> ok (parseResponse (failed_response cmd))"
  by (simp add: failed_response_def parseResponse_status ok_def)

lemma sync_loop_8:
  "sync_loop 8 s = sync_loop (Suc (Suc (Suc (Suc (Suc (Suc (Suc (Suc 0)))))))) s"
  by (simp add: eval_nat_numeral)

lemma sync_sync_responses:
  "sync \<lparr>rx = sync_responses rest, tx = t, ctl = c\<rparr> =
     (True, \<lparr>rx = rest, tx = t @ SLIP_encode (command_frame 0x08 sync_payload 0), ctl = c\<rparr>)"
  by (simp add: sync_def sync_loop_8 sync_responses_def writeCommand_port readResponse_frame
      ok_ok_response)

lemma trySync_sync_responses:
  "trySync \<lparr>rx = sync_responses rest, tx = t, ctl = c\<rparr> (Suc n) =
     (True, \<lparr>rx = rest, tx = t @ SLIP_encode (command_frame 0x08 sync_payload 0), ctl = c\<rparr>)"
  by (simp add: sync_sync_responses)

lemma rebootIntoBootloader_sync_responses:
  "rebootIntoBootloader \<lparr>rx = sync_responses rest, tx = t, ctl = c\<rparr> =
     (True, \<lparr>rx = rest, tx = t @ SLIP_encode (command_frame 0x08 sync_payload 0),
        ctl = c @ [DTR False, RTS True, Msleep 50, DTR True, RTS False, Msleep 50, DTR False]\<rparr>)"
proof -
  have "(3::nat) = Suc 2" by simp
  then show ?thesis
    by (simp only: rebootIntoBootloader_def QSerialPort.simps QSerialPort.update_convs
        trySync_sync_responses)
qed

lemma write_attempts_3:
  "write_attempts 3 w a t = write_attempts (Suc (Suc (Suc 0))) w a t"
  by (simp add: eval_nat_numeral)

lemmas run_eval = run_images_def run_flash_params_def run_patch_image_def QMap_contains_def
  QMap_value_def run_generate_id_def QMap_keys_def write_attempts_3 writeFlashLocked_def
  writeFlashStartLocked_def writeBlockSize_def emit_def writeCommand_port
  readResponse_frame readResponse_last ok_ok_response ok_failed_response
  writeFlashBlockLocked_def Let_def rebootIntoBootloader_sync_responses

lemma flash_end_frame:
  "command_frame 0x04 [0x01, 0x00, 0x00, 0x00] 0 =
     [0x00, 0x04, 0x04, 0x00, 0x00, 0x00, 0x00, 0x00, 0x01, 0x00, 0x00, 0x00]"
  by (simp add: command_frame_def le16_def le32_def)

lemma leaveFlashingModeLocked_alt:
  "leaveFlashingModeLocked this =
     (ok (fst (readResponse (writeCommand (port this) 0x04 [0x01, 0x00, 0x00, 0x00] 0)))
        \<or> erase_bug_workaround this,
      this\<lparr>port := snd (readResponse (writeCommand (port this) 0x04 [0x01, 0x00, 0x00, 0x00] 0))\<rparr>)"
  by (auto simp: leaveFlashingModeLocked_def Let_def split: prod.splits)

lemma run_finish_dio:
  "drop_bit 8 flashParams AND 0xff = 2 \<Longrightarrow>
   run_finish flashParams this =
     this\<lparr>port := (port this)\<lparr>ctl := ctl (port this) @ [DTR False, RTS True, Msleep 50, RTS False]\<rparr>,
          emitted := emitted this @ [Done AllDone True]\<rparr>"
  by (simp add: run_finish_def emit_def rebootIntoFirmware_def)

lemma run_finish_other:
  "drop_bit 8 flashParams AND 0xff \<noteq> 2 \<Longrightarrow>
   run_finish flashParams this =
     (let (left, this') = leaveFlashingModeLocked this
      in this'\<lparr>emitted := emitted this' @
           [if left then Done AllDone True else Done FailedToLeaveFlashingMode False]\<rparr>)"
  by (simp add: run_finish_def emit_def split: prod.splits)

text \<open>
  The last step in terms of the variable \<open>flashParams\<close> of \<open>run\<close>. When \<open>run\<close> has written
  all images and reaches its last step with the value \<open>flashParams\<close>, the step depends on \<open>(flashParams >> 8) & 0xff\<close> only. If it is 2, \<open>run\<close>
  pulses the modem lines (DTR off, RTS on, 50 ms, RTS off), puts nothing on the line, so
  no \<open>flash_end\<close>, and reports success. Otherwise \<open>run\<close> puts the frame of command \<open>0x04\<close>
  with the payload \<open>01 00 00 00\<close> on the line and leaves the modem lines alone.
\<close>

lemma run_final_step_by_mode:
  assumes "run_images sha1 qrand this = (Some flashParams, this')"
  shows "(drop_bit 8 flashParams AND 0xff = 2 \<longrightarrow>
            tx (port (run sha1 qrand this)) = tx (port this')
          \<and> ctl (port (run sha1 qrand this)) =
              ctl (port this') @ [DTR False, RTS True, Msleep 50, RTS False]
          \<and> emitted (run sha1 qrand this) = emitted this' @ [Done AllDone True])
       \<and> (drop_bit 8 flashParams AND 0xff \<noteq> 2 \<longrightarrow>
            tx (port (run sha1 qrand this)) =
              tx (port this') @
              SLIP_encode [0x00, 0x04, 0x04, 0x00, 0x00, 0x00, 0x00, 0x00, 0x01, 0x00, 0x00, 0x00]
          \<and> ctl (port (run sha1 qrand this)) = ctl (port this'))"
proof -
  have r: "run sha1 qrand this = run_finish flashParams this'"
    using assms by (simp add: run_def)
  show ?thesis
    unfolding r
    by (simp add: run_finish_dio run_finish_other leaveFlashingModeLocked_alt
        tx_readResponse tx_writeCommand flash_end_frame)
qed


lemma boot_flasher_images:
  "run_images sha1 qrand (boot_flasher mode w) =
     (Some (push_bit 8 (sint mode) OR 64),
      \<lparr>images = [(0, [0xE9, 0x00, mode, 0x40])],
       port =
         \<lparr>rx = SLIP_encode (failed_response 4),
          tx = SLIP_encode (command_frame 8 sync_payload 0) @
               SLIP_encode
                 (command_frame 2
                    ((if w then le32 (fixupEraseLength 0 1024) else le32 1024) @
                     le32 1 @ le32 1024 @ le32 0) 0) @
               SLIP_encode
                 (command_frame 3
                    (le32 1024 @ le32 0 @ le32 0 @ le32 0 @
                     [0xE9, 0x00, mode, 0x40] @ replicate 1020 0xff)
                    (checksum ([0xE9, 0x00, mode, 0x40] @ replicate 1020 0xff))),
          ctl = [DTR False, RTS True, Msleep 50, DTR True, RTS False, Msleep 50, DTR False]\<rparr>,
       written_count = 1, preserve_flash_params = False, erase_bug_workaround = w,
       override_flash_params = - 1, merge_flash_filesystem = False,
       generate_id_if_none_found = False, id_hostname = [],
       emitted = [StatusErasingFlashAt 0, StatusWritingBlock 0 0, Progress 1]\<rparr>)"
  by (simp add: boot_flasher_def run_eval)

text \<open>An image in DIO mode (mode byte 2) and one in QIO mode (mode byte 0), each on a
  device that has answered every command of the write.\<close>

lemma run_final_step_by_mode_examples:
  "emitted (run (\<lambda>_. []) (\<lambda>_. 0) (boot_flasher 2 True)) =
     [StatusErasingFlashAt 0, StatusWritingBlock 0 0, Progress 1, Done AllDone True]
   \<and> ctl (port (run (\<lambda>_. []) (\<lambda>_. 0) (boot_flasher 2 True))) =
     [DTR False, RTS True, Msleep 50, DTR True, RTS False, Msleep 50, DTR False,
      DTR False, RTS True, Msleep 50, RTS False]
   \<and> tx (port (run (\<lambda>_. []) (\<lambda>_. 0) (boot_flasher 2 True))) =
     tx (port (snd (run_images (\<lambda>_. []) (\<lambda>_. 0) (boot_flasher 2 True))))
   \<and> tx (port (run (\<lambda>_. []) (\<lambda>_. 0) (boot_flasher 0 True))) =
     tx (port (snd (run_images (\<lambda>_. []) (\<lambda>_. 0) (boot_flasher 0 True)))) @
     SLIP_encode [0x00, 0x04, 0x04, 0x00, 0x00, 0x00, 0x00, 0x00, 0x01, 0x00, 0x00, 0x00]
   \<and> ctl (port (run (\<lambda>_. []) (\<lambda>_. 0) (boot_flasher 0 True))) =
     [DTR False, RTS True, Msleep 50, DTR True, RTS False, Msleep 50, DTR False]"
  using
    run_final_step_by_mode [OF boot_flasher_images [of "\<lambda>_. []" "\<lambda>_. 0" 2 True]]
    run_final_step_by_mode [OF boot_flasher_images [of "\<lambda>_. []" "\<lambda>_. 0" 0 True]]
  by (simp add: boot_flasher_images)

text \<open>
  C7. \<open>leaveFlashingModeLocked\<close> puts the frame of command \<open>0x04\<close> with the payload
  \<open>01 00 00 00\<close> on the line. When the response is not ok, it returns true if the erase
  bug workaround is active and false if it is not; and a \<open>run\<close> that has reached its
  last step with a mode byte other than 2 then ends, in the first case with
  \<open>done(All done!, true)\<close>, in the second with \<open>done(failed to leave flashing mode, false)\<close>
  as its last signal.
\<close>

theorem leaveFlashingMode_failure:
  "tx (port (snd (leaveFlashingModeLocked this))) =
     tx (port this) @
     SLIP_encode [0x00, 0x04, 0x04, 0x00, 0x00, 0x00, 0x00, 0x00, 0x01, 0x00, 0x00, 0x00]
   \<and> (\<not> ok (fst (readResponse (writeCommand (port this) 0x04 [0x01, 0x00, 0x00, 0x00] 0))) \<longrightarrow>
        (erase_bug_workaround this \<longrightarrow> fst (leaveFlashingModeLocked this))
      \<and> (\<not> erase_bug_workaround this \<longrightarrow> \<not> fst (leaveFlashingModeLocked this))
      \<and> (run_images sha1 qrand start = (Some flashParams, this) \<and>
           drop_bit 8 flashParams AND 0xff \<noteq> 2 \<longrightarrow>
             emitted (run sha1 qrand start) =
               emitted this @
               [if erase_bug_workaround this then Done AllDone True
                else Done FailedToLeaveFlashingMode False]))"
  by (simp add: run_def run_finish_other leaveFlashingModeLocked_alt tx_readResponse
      tx_writeCommand flash_end_frame)

text \<open>The device refuses the \<open>flash_end\<close>, once with the workaround and once without.\<close>

theorem leaveFlashingMode_failure_witness:
  "\<not> ok (fst (readResponse (writeCommand
        (port (snd (run_images (\<lambda>_. []) (\<lambda>_. 0) (boot_flasher 0 True))))
        0x04 [0x01, 0x00, 0x00, 0x00] 0)))
   \<and> fst (leaveFlashingModeLocked (snd (run_images (\<lambda>_. []) (\<lambda>_. 0) (boot_flasher 0 True))))
   \<and> \<not> fst (leaveFlashingModeLocked (snd (run_images (\<lambda>_. []) (\<lambda>_. 0) (boot_flasher 0 False))))
   \<and> emitted (run (\<lambda>_. []) (\<lambda>_. 0) (boot_flasher 0 True)) =
       [StatusErasingFlashAt 0, StatusWritingBlock 0 0, Progress 1, Done AllDone True]
   \<and> emitted (run (\<lambda>_. []) (\<lambda>_. 0) (boot_flasher 0 False)) =
       [StatusErasingFlashAt 0, StatusWritingBlock 0 0, Progress 1,
        Done FailedToLeaveFlashingMode False]"
  using
    leaveFlashingMode_failure
      [of "snd (run_images (\<lambda>_. []) (\<lambda>_. 0) (boot_flasher 0 True))"
          "\<lambda>_. []" "\<lambda>_. 0" "boot_flasher 0 True" "push_bit 8 (sint (0::byte)) OR 64"]
    leaveFlashingMode_failure
      [of "snd (run_images (\<lambda>_. []) (\<lambda>_. 0) (boot_flasher 0 False))"
          "\<lambda>_. []" "\<lambda>_. 0" "boot_flasher 0 False" "push_bit 8 (sint (0::byte)) OR 64"]
  by (simp add: boot_flasher_images writeCommand_port readResponse_last ok_failed_response)


section \<open>Properties of the flash parameters kept from the device\<close>

lemma trySync_5_sync_responses:
  "trySync \<lparr>rx = sync_responses rest, tx = t, ctl = c\<rparr> 5 =
     (True, \<lparr>rx = rest, tx = t @ SLIP_encode (command_frame 0x08 sync_payload 0), ctl = c\<rparr>)"
proof -
  have "(5::nat) = Suc 4" by simp
  then show ?thesis by (simp only: trySync_sync_responses)
qed

lemmas read_eval = readFlashParamsLocked_def readFlashLocked_def trySync_5_sync_responses
  SLIP_read_frame SLIP_read_last

lemma byte_mask: "(0xff::int) = mask 8"
  by (simp add: mask_eq_exp_minus_1)

lemma sint_byte_nonneg: "0 \<le> sint (b::byte) \<longleftrightarrow> \<not> bit b 7"
  using bit_last_iff [of b] by auto

lemma flash_params_high_byte:
  "0 \<le> sint (a::byte) \<Longrightarrow> 0 \<le> sint (b::byte) \<Longrightarrow>
   (of_int (drop_bit 8 (push_bit 8 (sint a) OR sint b) AND 0xff) :: byte) = a"
  unfolding byte_mask
  by (rule bit_word_eqI) (auto simp add: bit_simps sint_byte_nonneg)

lemma flash_params_low_byte:
  "0 \<le> sint (a::byte) \<Longrightarrow> 0 \<le> sint (b::byte) \<Longrightarrow>
   (of_int ((push_bit 8 (sint a) OR sint b) AND 0xff) :: byte) = b"
  unfolding byte_mask
  by (rule bit_word_eqI) (auto simp add: bit_simps sint_byte_nonneg)

lemmas flash_params_bytes =
  flash_params_high_byte [simplified] flash_params_low_byte [simplified]


lemma map_of_QMap_insert: "map_of (QMap_insert m k v) = (map_of m)(k \<mapsto> v)"
  by (induction m) (auto simp: fun_upd_twist)

lemma QMap_value_insert: "QMap_value (QMap_insert m k v) k = v"
  by (simp add: QMap_value_def map_of_QMap_insert)

text \<open>The two ways \<open>run\<close> gets its \<open>flashParams\<close>, and what it does to the image at
  address 0 with a value that is not negative, and with one that is.\<close>

lemma run_flash_params_override:
  "0 \<le> override_flash_params this \<Longrightarrow>
   run_flash_params this = (Some (override_flash_params this), this)"
  by (simp add: run_flash_params_def)

lemma run_flash_params_preserve:
  "override_flash_params this < 0 \<Longrightarrow> preserve_flash_params this \<Longrightarrow>
   readFlashParamsLocked this = ([a, b], this') \<Longrightarrow>
   run_flash_params this = (Some (push_bit 8 (sint a) OR sint b), this')"
  by (simp add: run_flash_params_def)

lemma run_patch_image_set:
  "QMap_contains (images this) 0 \<Longrightarrow> 4 \<le> length (QMap_value (images this) 0) \<Longrightarrow>
   QMap_value (images this) 0 ! 0 = 0xE9 \<Longrightarrow> 0 \<le> flashParams \<Longrightarrow>
   QMap_value (images (snd (run_patch_image flashParams this))) 0 =
     (QMap_value (images this) 0)
       [2 := of_int (drop_bit 8 flashParams AND 0xff), 3 := of_int (flashParams AND 0xff)]"
  by (simp add: run_patch_image_def Let_def QMap_value_insert)

lemma run_patch_image_unset:
  "flashParams < 0 \<Longrightarrow> images (snd (run_patch_image flashParams this)) = images this"
  by (simp add: run_patch_image_def Let_def)

text \<open>The value read from the device is negative as soon as one of the two bytes, read
  as a \<open>char\<close>, is negative; and two bytes that are not negative are the two bytes \<open>run\<close>
  stores in the image.\<close>

lemma flash_params_negative:
  "push_bit 8 (sint (a::byte)) OR sint (b::byte) < 0 \<longleftrightarrow> sint a < 0 \<or> sint b < 0"
  by simp

lemma preserve_flasher_small:
  "0 \<le> sint a \<Longrightarrow> 0 \<le> sint b \<Longrightarrow>
   images (snd (run_images sha1 qrand (preserve_flasher a b))) = [(0, [0xE9, 0x00, a, b])]"
  by (simp add: preserve_flasher_def run_eval read_eval flash_params_bytes)

lemma preserve_flasher_negative:
  "sint a < 0 \<or> sint b < 0 \<Longrightarrow>
   images (snd (run_images sha1 qrand (preserve_flasher a b))) = [(0, [0xE9, 0x00, 0x00, 0x40])]"
  by (auto simp add: preserve_flasher_def run_eval read_eval)


text \<open>
  When the image at address 0 has a header, \<open>flashParams\<close> at the last step of \<open>run\<close> is
  read back from bytes 2 and 3 of the image, as \<open>char\<close>s. Its mode byte
  \<open>(flashParams >> 8) & 0xff\<close> is byte 2 of the image when neither byte is negative, and
  \<open>0xff\<close> when byte 3 is.
\<close>

lemma run_patch_image_reads_back:
  "QMap_contains (images this) 0 \<Longrightarrow> 4 \<le> length (QMap_value (images this) 0) \<Longrightarrow>
   QMap_value (images this) 0 ! 0 = 0xE9 \<Longrightarrow>
   fst (run_patch_image flashParams this) =
     push_bit 8 (sint (QMap_value (images (snd (run_patch_image flashParams this))) 0 ! 2)) OR
     sint (QMap_value (images (snd (run_patch_image flashParams this))) 0 ! 3)"
  by (simp add: run_patch_image_def Let_def)

lemma sint_byte_neg: "sint (b::byte) < 0 \<longleftrightarrow> bit b 7"
  using bit_last_iff [of b] by auto

lemma mode_of_bytes:
  "0 \<le> sint (a::byte) \<Longrightarrow> 0 \<le> sint (b::byte) \<Longrightarrow>
   drop_bit 8 (push_bit 8 (sint a) OR sint b) AND 0xff = sint a"
  unfolding byte_mask
  by (rule bit_eqI) (auto simp add: bit_simps sint_byte_nonneg min_def split: if_splits)

lemma mode_of_negative_low_byte:
  "sint (b::byte) < 0 \<Longrightarrow> drop_bit 8 (push_bit 8 (sint (a::byte)) OR sint b) AND 0xff = 0xff"
  unfolding byte_mask
  by (rule bit_eqI) (auto simp add: bit_simps sint_byte_neg)

text \<open>
  C5, at a boot image written with the header \<open>E9 00 02 90\<close>, whose mode byte is 2 (DIO):
  the image goes to the device as it is, \<open>flashParams\<close> is read back from it as
  \<open>0x02 << 8 | (char) 0x90 = -112\<close>, its mode byte \<open>(flashParams >> 8) & 0xff\<close> is \<open>0xff\<close>, and
  the last step of \<open>run\<close> sends the \<open>flash_end\<close> frame and does not pulse the modem lines.
\<close>

theorem dio_image_gets_flash_end:
  "images (snd (run_images sha1 qrand dio_flasher)) = [(0, [0xE9, 0x00, 0x02, 0x90])]
   \<and> fst (run_images sha1 qrand dio_flasher) = Some (- 112)
   \<and> drop_bit 8 (- 112 :: int) AND 0xff = 0xff
   \<and> tx (port (run sha1 qrand dio_flasher)) =
       SLIP_encode (command_frame 8 sync_payload 0) @
       SLIP_encode
         (command_frame 2 (le32 (fixupEraseLength 0 1024) @ le32 1 @ le32 1024 @ le32 0) 0) @
       SLIP_encode
         (command_frame 3
            (le32 1024 @ le32 0 @ le32 0 @ le32 0 @
             [0xE9, 0x00, 0x02, 0x90] @ replicate 1020 0xff)
            (checksum ([0xE9, 0x00, 0x02, 0x90] @ replicate 1020 0xff))) @
       SLIP_encode [0x00, 0x04, 0x04, 0x00, 0x00, 0x00, 0x00, 0x00, 0x01, 0x00, 0x00, 0x00]
   \<and> ctl (port (run sha1 qrand dio_flasher)) =
       [DTR False, RTS True, Msleep 50, DTR True, RTS False, Msleep 50, DTR False]
   \<and> emitted (run sha1 qrand dio_flasher) =
       [StatusErasingFlashAt 0, StatusWritingBlock 0 0, Progress 1, Done AllDone True]"
  by (simp add: dio_flasher_def run_def run_finish_def leaveFlashingModeLocked_def
      flash_end_frame run_eval)

text \<open>
  C1, at a device whose flash header holds the parameter bytes \<open>02 90\<close> (read without
  failure), with \<open>preserve_flash_params\<close> set, no override, and a boot image
  \<open>E9 00 00 40\<close>: \<open>flashParams\<close> is \<open>0x02 << 8 | (char) 0x90 = -112\<close>, the image is written
  as it was, with \<open>00 40\<close> at bytes 2 and 3, and \<open>run\<close> reports success.
\<close>

theorem preserve_flash_params_sign_extension:
  "fst (readFlashParamsLocked
         ((preserve_flasher 0x02 0x90)
            \<lparr>port := snd (rebootIntoBootloader (port (preserve_flasher 0x02 0x90)))\<rparr>)) =
     [0x02, 0x90]
   \<and> fst (run_flash_params
         ((preserve_flasher 0x02 0x90)
            \<lparr>port := snd (rebootIntoBootloader (port (preserve_flasher 0x02 0x90)))\<rparr>)) =
     Some (- 112)
   \<and> images (snd (run_images sha1 qrand (preserve_flasher 0x02 0x90))) =
     [(0, [0xE9, 0x00, 0x00, 0x40])]
   \<and> emitted (run sha1 qrand (preserve_flasher 0x02 0x90)) =
     [StatusErasingFlashAt 0, StatusWritingBlock 0 0, Progress 1, Done AllDone True]"
  by (simp add: preserve_flasher_def run_def run_finish_def leaveFlashingModeLocked_def
      run_eval read_eval)


section \<open>Properties of the flash parameter strings\<close>

lemma split_from_no_sep: "sep \<notin> set a \<Longrightarrow> split_from sep cur a = [cur @ a]"
  by (induction a arbitrary: cur) auto

lemma split_from_sep:
  "sep \<notin> set a \<Longrightarrow> split_from sep cur (a @ sep # rest) = (cur @ a) # split_from sep [] rest"
  by (induction a arbitrary: cur) auto

lemma length_split_from:
  "length (split_from sep cur s) = Suc (length (filter (\<lambda>c. c = sep) s))"
  by (induction s arbitrary: cur) auto

lemma flashMode_keys: "flashMode m = Some v \<Longrightarrow> CHR '','' \<notin> set m"
  by (auto simp: flashMode_def split: if_splits)

lemma flashSize_keys: "flashSize m = Some v \<Longrightarrow> CHR '','' \<notin> set m"
  by (auto simp: flashSize_def split: if_splits)

lemma flashFreq_keys: "flashFreq m = Some v \<Longrightarrow> CHR '','' \<notin> set m"
  by (auto simp: flashFreq_def split: if_splits)

lemma split_three:
  "CHR '','' \<notin> set a \<Longrightarrow> CHR '','' \<notin> set b \<Longrightarrow> CHR '','' \<notin> set c \<Longrightarrow>
   QString_split CHR '','' (a @ '','' @ b @ '','' @ c) = [a, b, c]"
  using split_from_sep [of "CHR '',''" a "[]" "b @ '','' @ c"]
    split_from_sep [of "CHR '',''" b "[]" c] split_from_no_sep [of "CHR '',''" c "[]"]
  by (simp add: QString_split_def)

text \<open>
  C8. For a mode, a size and a frequency of the three tables, the string
  \<open>mode,size,freq\<close> gives \<open>(m << 8) | (s << 4) | f\<close>. A string without a comma is given to
  \<open>toInt\<close> (base 0) and the integer it returns is masked to its low 16 bits; when \<open>toInt\<close>
  does not accept it the result is \<open>INVALID_ARGUMENT\<close>. Three parts of which one is not in
  its table, and any number of commas other than none and two, give \<open>INVALID_ARGUMENT\<close>.
  The tables hold the three alphabets with their numbers.
\<close>

theorem flashParamsFromString_parts:
  "(flashMode m = Some mv \<and> flashSize sz = Some sv \<and> flashFreq f = Some fv \<longrightarrow>
      flashParamsFromString toInt (m @ '','' @ sz @ '','' @ f) =
        Inr (push_bit 8 mv OR push_bit 4 sv OR fv))
   \<and> (CHR '','' \<notin> set s \<longrightarrow>
        flashParamsFromString toInt s =
          (case toInt s of
             None \<Rightarrow> Inl (INVALID_ARGUMENT, ''invalid number'')
           | Some r \<Rightarrow> Inr (r AND 0xffff)))
   \<and> (QString_split CHR '','' s = [a, b, c] \<and>
        (flashMode a = None \<or> flashSize b = None \<or> flashFreq c = None) \<longrightarrow>
        (\<exists>msg. flashParamsFromString toInt s = Inl (INVALID_ARGUMENT, msg)))
   \<and> (length (filter (\<lambda>c. c = CHR '','') s) \<noteq> 0 \<and> length (filter (\<lambda>c. c = CHR '','') s) \<noteq> 2 \<longrightarrow>
        (\<exists>msg. flashParamsFromString toInt s = Inl (INVALID_ARGUMENT, msg)))
   \<and> map flashMode [''qio'', ''qout'', ''dio'', ''dout''] = [Some 0, Some 1, Some 2, Some 3]
   \<and> map flashSize [''4m'', ''2m'', ''8m'', ''16m'', ''32m'', ''16m-c1'', ''32m-c1'', ''32m-c2''] =
       [Some 0, Some 1, Some 2, Some 3, Some 4, Some 5, Some 6, Some 7]
   \<and> map flashFreq [''40m'', ''26m'', ''20m'', ''80m''] = [Some 0, Some 1, Some 2, Some 15]
   \<and> dom flashMode = {''qio'', ''qout'', ''dio'', ''dout''}
   \<and> dom flashSize = {''4m'', ''2m'', ''8m'', ''16m'', ''32m'', ''16m-c1'', ''32m-c1'', ''32m-c2''}
   \<and> dom flashFreq = {''40m'', ''26m'', ''20m'', ''80m''}"
proof (intro conjI impI)
  assume "flashMode m = Some mv \<and> flashSize sz = Some sv \<and> flashFreq f = Some fv"
  then show "flashParamsFromString toInt (m @ '','' @ sz @ '','' @ f) =
        Inr (push_bit 8 mv OR push_bit 4 sv OR fv)"
    using split_three [of m sz f]
    by (simp add: flashParamsFromString_def flashMode_keys flashSize_keys flashFreq_keys)
next
  assume "CHR '','' \<notin> set s"
  then have "QString_split CHR '','' s = [s]"
    by (simp add: QString_split_def split_from_no_sep)
  then show "flashParamsFromString toInt s =
          (case toInt s of
             None \<Rightarrow> Inl (INVALID_ARGUMENT, ''invalid number'')
           | Some r \<Rightarrow> Inr (r AND 0xffff))"
    by (simp add: flashParamsFromString_def)
next
  assume "QString_split CHR '','' s = [a, b, c] \<and>
        (flashMode a = None \<or> flashSize b = None \<or> flashFreq c = None)"
  then show "\<exists>msg. flashParamsFromString toInt s = Inl (INVALID_ARGUMENT, msg)"
    by (auto simp: flashParamsFromString_def Let_def)
next
  assume "length (filter (\<lambda>c. c = CHR '','') s) \<noteq> 0 \<and> length (filter (\<lambda>c. c = CHR '','') s) \<noteq> 2"
  then have "length (QString_split CHR '','' s) \<noteq> 1 \<and> length (QString_split CHR '','' s) \<noteq> 3"
    by (simp add: QString_split_def length_split_from)
  then show "\<exists>msg. flashParamsFromString toInt s = Inl (INVALID_ARGUMENT, msg)"
    by (simp add: flashParamsFromString_def)
qed (auto simp: flashMode_def flashSize_def flashFreq_def dom_def split: if_splits)

text \<open>The strings \<open>dio,32m,40m\<close> and \<open>0x0220\<close>, a frequency that is not in the table, and
  a string of two parts; \<open>toInt\<close> is a stand-in that knows \<open>0x0220\<close>.\<close>

theorem flashParamsFromString_parts_witness:
  "flashParamsFromString (\<lambda>s. if s = ''0x0220'' then Some 0x0220 else None) ''dio,32m,40m'' = Inr 0x0240
   \<and> flashParamsFromString (\<lambda>s. if s = ''0x0220'' then Some 0x0220 else None) ''0x0220'' = Inr 0x0220
   \<and> (\<exists>msg. flashParamsFromString (\<lambda>s. if s = ''0x0220'' then Some 0x0220 else None) ''dio,32m,41m'' =
         Inl (INVALID_ARGUMENT, msg))
   \<and> (\<exists>msg. flashParamsFromString (\<lambda>s. if s = ''0x0220'' then Some 0x0220 else None) ''dio,32m'' =
         Inl (INVALID_ARGUMENT, msg))"
  using
    flashParamsFromString_parts [of "''dio''" 2 "''32m''" 4 "''40m''" 0
      "\<lambda>s. if s = ''0x0220'' then Some 0x0220 else None" "''0x0220''"]
    flashParamsFromString_parts [of "''dio''" 2 "''32m''" 4 "''40m''" 0
      "\<lambda>s. if s = ''0x0220'' then Some 0x0220 else None" "''dio,32m,41m''"
      "''dio''" "''32m''" "''41m''"]
    flashParamsFromString_parts [of "''dio''" 2 "''32m''" 4 "''40m''" 0
      "\<lambda>s. if s = ''0x0220'' then Some 0x0220 else None" "''dio,32m''"]
  by (simp add: flashMode_def flashSize_def flashFreq_def QString_split_def)

section \<open>Properties of load\<close>

lemma load_files_append:
  "list_all (loadable toULong) pre \<Longrightarrow>
   load_files toULong (pre @ rest) m = load_files toULong rest (loaded toULong pre m)"
  by (induction pre arbitrary: m) (auto simp: loadable_def split: option.splits)

lemma QMap_insert_not_empty: "QMap_insert m k v \<noteq> []"
  by (cases m) (auto split: if_splits)

lemma loaded_not_empty: "m \<noteq> [] \<Longrightarrow> loaded toULong files m \<noteq> []"
  by (induction files arbitrary: m) (auto simp: QMap_insert_not_empty)

text \<open>
  C9. \<open>load\<close> clears the image map first. When the files \<open>pre\<close> are accepted and the next
  file \<open>bad\<close> has a name that is no address, or cannot be opened, \<open>load\<close> returns the error
  and leaves in the map the images of \<open>pre\<close>, which is not empty as soon as \<open>pre\<close> is
  not; when \<open>bad\<close> is read with a length other than its size, the map is cleared again.
  A directory that does not exist or has no file leaves the map empty.
\<close>

theorem load_not_atomic:
  assumes "list_all (loadable toULong) pre"
  shows "(toULong (baseName bad) = None \<longrightarrow>
           load toULong (Some (pre @ bad # post)) this =
             (Some (NotAValidAddress (baseName bad)), this\<lparr>images := loaded toULong pre []\<rparr>))
       \<and> (toULong (baseName bad) \<noteq> None \<and> contents bad = None \<longrightarrow>
           load toULong (Some (pre @ bad # post)) this =
             (Some (FailedToOpen (absoluteFilePath bad)),
              this\<lparr>images := loaded toULong pre []\<rparr>))
       \<and> (toULong (baseName bad) \<noteq> None \<and> contents bad = Some bytes \<and>
          length bytes \<noteq> size' bad \<longrightarrow>
           load toULong (Some (pre @ bad # post)) this =
             (Some (SizeMismatch (fileName bad) (size' bad) (length bytes)),
              this\<lparr>images := []\<rparr>))
       \<and> (pre \<noteq> [] \<longrightarrow> loaded toULong pre [] \<noteq> [])
       \<and> load toULong None this = (Some DirectoryDoesNotExist, this\<lparr>images := []\<rparr>)
       \<and> load toULong (Some []) this = (Some NoFilesToFlash, this\<lparr>images := []\<rparr>)"
proof -
  have l: "load_files toULong (pre @ bad # post) [] =
      load_files toULong (bad # post) (loaded toULong pre [])"
    using assms by (rule load_files_append)
  have ne: "pre \<noteq> [] \<longrightarrow> loaded toULong pre [] \<noteq> []"
    by (cases pre) (auto simp: loaded_not_empty QMap_insert_not_empty)
  show ?thesis
    using ne by (auto simp: load_def l Let_def)
qed

text \<open>A map that held an image at \<open>0x7000\<close>, and a directory with a good file followed by
  a file whose name is no address: the map then holds the good file only.\<close>

theorem load_not_atomic_witness:
  "load hex_name
     (Some ([\<lparr>fileName = ''0x00000.bin'', baseName = ''0x00000'',
              absoluteFilePath = ''/fw/0x00000.bin'', size' = 2, contents = Some [0xE9, 0x00]\<rparr>] @
            \<lparr>fileName = ''0xzz.bin'', baseName = ''0xzz'', absoluteFilePath = ''/fw/0xzz.bin'',
              size' = 1, contents = Some [0x00]\<rparr> # []))
     \<lparr>images = [(0x7000, [0x01])], port = \<lparr>rx = [], tx = [], ctl = []\<rparr>, written_count = 0,
      preserve_flash_params = True, erase_bug_workaround = True, override_flash_params = - 1,
      merge_flash_filesystem = True, generate_id_if_none_found = True, id_hostname = [],
      emitted = []\<rparr> =
   (Some (NotAValidAddress ''0xzz''),
    \<lparr>images = [(0, [0xE9, 0x00])], port = \<lparr>rx = [], tx = [], ctl = []\<rparr>, written_count = 0,
      preserve_flash_params = True, erase_bug_workaround = True, override_flash_params = - 1,
      merge_flash_filesystem = True, generate_id_if_none_found = True, id_hostname = [],
      emitted = []\<rparr>)"
  using load_not_atomic
    [of hex_name
        "[\<lparr>fileName = ''0x00000.bin'', baseName = ''0x00000'',
              absoluteFilePath = ''/fw/0x00000.bin'', size' = 2, contents = Some [0xE9, 0x00]\<rparr>]"
        "\<lparr>fileName = ''0xzz.bin'', baseName = ''0xzz'', absoluteFilePath = ''/fw/0xzz.bin'',
              size' = 1, contents = Some [0x00]\<rparr>"
        "[]"
        "\<lparr>images = [(0x7000, [0x01])], port = \<lparr>rx = [], tx = [], ctl = []\<rparr>, written_count = 0,
      preserve_flash_params = True, erase_bug_workaround = True, override_flash_params = - 1,
      merge_flash_filesystem = True, generate_id_if_none_found = True, id_hostname = [],
      emitted = []\<rparr>"]
  by (simp add: loadable_def hex_name_def)

section \<open>Properties of the ID block\<close>

lemma arg_tokens_plain:
  "CHR ''%'' \<notin> set s \<Longrightarrow> arg_tokens (s @ t) = lit s @ arg_tokens t"
  by (induction s) (auto simp: lit_def)

lemma min_escape_lit: "min_escape (lit s @ ts) = min_escape ts"
  by (induction s) (auto simp: lit_def)

lemma concat_lit:
  "concat (map (\<lambda>(n, txt). if n = Some m then a else txt) (lit s @ ts)) =
     s @ concat (map (\<lambda>(n, txt). if n = Some m then a else txt) ts)"
  by (induction s) (auto simp: lit_def)

lemma unat_byte_less: "unat (a::byte) < 256"
  using unsigned_less [of a] by simp

lemma base64url_nth: "i < 64 \<Longrightarrow> base64url ! i \<in> set base64url"
proof -
  have "length base64url = 64" by (simp add: base64url_def)
  then show "i < 64 \<Longrightarrow> base64url ! i \<in> set base64url" by (metis nth_mem)
qed

lemma toBase64_alphabet: "set (toBase64 bs) \<subseteq> set base64url"
proof (induction bs rule: toBase64.induct)
  case (1 a b c rest)
  have "unat a div 4 < 64" "unat a mod 4 * 16 + unat b div 16 < 64"
    "unat b mod 16 * 4 + unat c div 64 < 64" "unat c mod 64 < 64"
    using unat_byte_less [of a] unat_byte_less [of b] unat_byte_less [of c] by simp_all
  with 1 show ?case by (simp add: base64url_nth)
next
  case (2 a b)
  have "unat a div 4 < 64" "unat a mod 4 * 16 + unat b div 16 < 64" "unat b mod 16 * 4 < 64"
    using unat_byte_less [of a] unat_byte_less [of b] by simp_all
  then show ?case by (simp add: base64url_nth)
next
  case (3 a)
  have "unat a div 4 < 64" "unat a mod 4 * 16 < 64"
    using unat_byte_less [of a] by simp_all
  then show ?case by (simp add: base64url_nth)
next
  case 4
  show ?case by simp
qed

lemma length_toBase64: "length (toBase64 bs) = (4 * length bs + 2) div 3"
  by (induction bs rule: toBase64.induct) simp_all


lemma QString_arg_plain:
  "CHR ''%'' \<notin> set pre \<Longrightarrow>
   QString_arg (pre @ s) a =
     (case min_escape (arg_tokens s) of
        None \<Rightarrow> pre @ s
      | Some m \<Rightarrow> pre @ concat (map (\<lambda>(n, txt). if n = Some m then a else txt) (arg_tokens s)))"
  using concat_lit [of _ a pre "[]"] min_escape_lit [of pre "[]"]
  by (simp add: QString_arg_def arg_tokens_plain min_escape_lit concat_lit Let_def
      split: option.splits)

lemma arg_host:
  "QString_arg ''{\"id\":\"//%1/d/%2\",\"key\":\"%3\"}'' host =
     ''{\"id\":\"//'' @ host @ ''/d/%2\",\"key\":\"%3\"}''"
  by (simp add: QString_arg_def escape_at_def digitValue_def)

lemma arg_id:
  "CHR ''%'' \<notin> set host \<Longrightarrow>
   QString_arg (''{\"id\":\"//'' @ host @ ''/d/%2\",\"key\":\"%3\"}'') ident =
     ''{\"id\":\"//'' @ host @ ''/d/'' @ ident @ ''\",\"key\":\"%3\"}''"
  using QString_arg_plain [of "''{\"id\":\"//'' @ host @ ''/d/''" "''%2\",\"key\":\"%3\"}''" ident]
  by (simp add: escape_at_def digitValue_def)

lemma arg_key:
  "CHR ''%'' \<notin> set host \<Longrightarrow> CHR ''%'' \<notin> set ident \<Longrightarrow>
   QString_arg (''{\"id\":\"//'' @ host @ ''/d/'' @ ident @ ''\",\"key\":\"%3\"}'') key =
     ''{\"id\":\"//'' @ host @ ''/d/'' @ ident @ ''\",\"key\":\"'' @ key @ ''\"}''"
  using QString_arg_plain [of "''{\"id\":\"//'' @ host @ ''/d/'' @ ident @ ''\",\"key\":\"''"
      "''%3\"}''" key]
  by (simp add: escape_at_def digitValue_def)

lemma toBase64_no_percent: "CHR ''%'' \<notin> set (toBase64 bs)"
  using toBase64_alphabet [of bs] by (auto simp: base64url_def)

lemma toBase64_no_nul: "CHR 0x00 \<notin> set (toBase64 bs)"
  using toBase64_alphabet [of bs] by (auto simp: base64url_def)

lemma length_random_bytes: "length (random_bytes qrand) = 12"
  by (simp add: random_bytes_def be16_def upt_rec)

text \<open>The payload for a host name without a place marker.\<close>

lemma id_payload_plain:
  assumes "CHR ''%'' \<notin> set host"
  shows "id_payload qrand host =
     toUtf8 (''{\"id\":\"//'' @ host @ ''/d/'' @ toBase64 (take 5 (random_bytes qrand)) @
             ''\",\"key\":\"'' @ toBase64 (drop 5 (random_bytes qrand)) @ ''\"}'')"
  by (simp only: id_payload_def Let_def arg_host arg_id [OF assms]
      arg_key [OF assms toBase64_no_percent])

lemma length_id_payload_plain:
  "CHR ''%'' \<notin> set host \<Longrightarrow> length (id_payload qrand host) = 40 + length host"
  by (simp add: id_payload_plain toUtf8_def length_toBase64 length_random_bytes)

lemma byte_of_char_zero: "(of_nat (of_char c) :: byte) = 0 \<longleftrightarrow> c = CHR 0x00"
proof -
  have "k = 0" if "(of_char c :: nat) = 256 * k" for k
    using nat_of_char_less_256 [of c] that by simp
  then have "(of_nat (of_char c) :: byte) = 0 \<longleftrightarrow> (of_char c :: nat) = 0"
    by (auto simp add: word_of_nat_eq_0_iff dvd_def)
  also have "\<dots> \<longleftrightarrow> (of_char c :: nat) = of_char (CHR 0x00)"
    by simp
  also have "\<dots> \<longleftrightarrow> c = CHR 0x00"
    by (simp only: of_char_eq_iff)
  finally show ?thesis .
qed


lemma zero_in_toUtf8: "0 \<in> set (toUtf8 s) \<longleftrightarrow> CHR 0x00 \<in> set s"
  by (induction s) (auto simp: toUtf8_def byte_of_char_zero)

lemma zero_in_id_payload_plain:
  "CHR ''%'' \<notin> set host \<Longrightarrow> 0 \<in> set (id_payload qrand host) \<longleftrightarrow> CHR 0x00 \<in> set host"
  by (simp add: id_payload_plain zero_in_toUtf8 toBase64_no_nul)

lemma index_from_takeWhile:
  "index_from c ys i =
     (if c \<in> set ys then Some (i + length (takeWhile (\<lambda>b. b \<noteq> c) ys)) else None)"
  by (induction ys arbitrary: i) auto

lemma takeWhile_terminated:
  "takeWhile (\<lambda>b. b \<noteq> c) (xs @ c # ys) = takeWhile (\<lambda>b. b \<noteq> c) xs"
  by (induction xs) auto

lemma takeWhile_absent: "c \<notin> set xs \<Longrightarrow> takeWhile (\<lambda>b. b \<noteq> c) xs = xs"
  by (induction xs) auto

lemma take_takeWhile:
  "take (length (takeWhile P xs)) (xs @ ys) = takeWhile P xs"
  by (induction xs) auto

lemma findId_terminated:
  assumes "length (sha1 data) = 20"
  shows "findId sha1 (sha1 data @ data @ 0 # pad) \<longleftrightarrow>
           sha1 data = sha1 (takeWhile (\<lambda>b. b \<noteq> 0) data)"
proof -
  have t: "take (length (takeWhile (\<lambda>b. b \<noteq> 0) data)) (data @ 0 # pad) =
      takeWhile (\<lambda>b. b \<noteq> 0) data"
    by (rule take_takeWhile)
  have "indexOf (sha1 data @ data @ 0 # pad) 0 20 =
      Some (20 + length (takeWhile (\<lambda>b. b \<noteq> 0) data))"
    using assms by (simp add: indexOf_def index_from_takeWhile takeWhile_terminated)
  moreover have "take 20 (sha1 data @ data @ 0 # pad) = sha1 data"
    using assms by simp
  moreover have "drop 20 (sha1 data @ data @ 0 # pad) = data @ 0 # pad"
    using assms by simp
  ultimately show ?thesis
    using t by (simp add: findId_def del: take_append drop_append)
qed

lemma generateIdBlock_alt:
  "generateIdBlock sha1 qrand host =
     sha1 (id_payload qrand host) @ id_payload qrand host @
     0 # replicate (4096 - (length (sha1 (id_payload qrand host)) +
                            length (id_payload qrand host) + 1)) 0xFF"
  by (simp add: generateIdBlock_def Let_def idBlockSize_def flashBlockSize_def)

lemma length_generateIdBlock:
  "length (sha1 (id_payload qrand host)) = 20 \<Longrightarrow>
   length (generateIdBlock sha1 qrand host) = max 4096 (21 + length (id_payload qrand host))"
  by (simp add: generateIdBlock_alt)

text \<open>
  C4, as amended. When the payload built for the host name has at most 4075 bytes, the
  block has 4096 bytes: the 20 bytes of the hash of the payload, the payload, one byte
  0, and bytes \<open>0xFF\<close> to the end. \<open>findId\<close> on this block compares the stored hash with
  the hash of the payload up to its first byte 0, so it is true when the payload has no
  byte 0. For a host name without a place marker \<open>%\<close>, the payload has 40 bytes more than
  the host name, and a byte 0 exactly when the host name has one. \<open>sha1\<close> is any function
  with results of 20 bytes.
\<close>

theorem generateIdBlock_found:
  assumes "\<forall>m. length (sha1 m) = 20" and "length (id_payload qrand host) \<le> 4075"
  shows "length (generateIdBlock sha1 qrand host) = 4096
       \<and> generateIdBlock sha1 qrand host =
           sha1 (id_payload qrand host) @ id_payload qrand host @ [0] @
           replicate (4075 - length (id_payload qrand host)) 0xFF
       \<and> (findId sha1 (generateIdBlock sha1 qrand host) \<longleftrightarrow>
            sha1 (id_payload qrand host) =
            sha1 (takeWhile (\<lambda>b. b \<noteq> 0) (id_payload qrand host)))
       \<and> (0 \<notin> set (id_payload qrand host) \<longrightarrow> findId sha1 (generateIdBlock sha1 qrand host))
       \<and> (CHR ''%'' \<notin> set host \<longrightarrow>
            length (id_payload qrand host) = 40 + length host
          \<and> (0 \<in> set (id_payload qrand host) \<longleftrightarrow> CHR 0x00 \<in> set host))"
proof -
  let ?data = "id_payload qrand host"
  have h: "length (sha1 ?data) = 20" using assms(1) by simp
  have len: "length (generateIdBlock sha1 qrand host) = 4096"
    using assms(2) h by (simp add: length_generateIdBlock)
  have form: "generateIdBlock sha1 qrand host =
      sha1 ?data @ ?data @ [0] @ replicate (4075 - length ?data) 0xFF"
    using h by (simp add: generateIdBlock_alt)
  have found: "findId sha1 (generateIdBlock sha1 qrand host) \<longleftrightarrow>
      sha1 ?data = sha1 (takeWhile (\<lambda>b. b \<noteq> 0) ?data)"
    unfolding generateIdBlock_alt using h by (rule findId_terminated)
  have nul: "0 \<notin> set ?data \<longrightarrow> findId sha1 (generateIdBlock sha1 qrand host)"
    by (simp add: found takeWhile_absent)
  have plain: "CHR ''%'' \<notin> set host \<longrightarrow>
      length ?data = 40 + length host \<and> (0 \<in> set ?data \<longleftrightarrow> CHR 0x00 \<in> set host)"
    by (simp add: length_id_payload_plain zero_in_id_payload_plain)
  from len form found nul plain show ?thesis
    by (intro conjI)
qed

text \<open>The host name \<open>api.example\<close>; the hash is a stand-in of 20 bytes, the random
  numbers are 0.\<close>

theorem generateIdBlock_found_witness:
  "(\<forall>m. length (replicate 20 (checksum m)) = 20)
   \<and> length (id_payload (\<lambda>_. 0) ''api.example'') = 51
   \<and> length (generateIdBlock (\<lambda>m. replicate 20 (checksum m)) (\<lambda>_. 0) ''api.example'') = 4096
   \<and> findId (\<lambda>m. replicate 20 (checksum m))
        (generateIdBlock (\<lambda>m. replicate 20 (checksum m)) (\<lambda>_. 0) ''api.example'')"
proof -
  have hash: "\<forall>m. length (replicate 20 (checksum m)) = 20"
    by simp
  have plain: "CHR ''%'' \<notin> set ''api.example''" and no_nul: "CHR 0x00 \<notin> set ''api.example''"
    by simp_all
  have len: "length (id_payload (\<lambda>_. 0) ''api.example'') = 51"
    using length_id_payload_plain [OF plain] by simp
  then have fits: "length (id_payload (\<lambda>_. 0) ''api.example'') \<le> 4075"
    by simp
  note block =
    generateIdBlock_found [of "\<lambda>m. replicate 20 (checksum m)" "\<lambda>_. 0" "''api.example''",
      OF hash fits]
  from block plain no_nul have "0 \<notin> set (id_payload (\<lambda>_. 0) ''api.example'')"
    by blast
  with block hash len show ?thesis
    by blast
qed

text \<open>
  C4 without the bound on the payload, for every host name, fails on a host name of 4036
  characters: the payload has 4076 bytes, nothing is appended, and the block has 4097
  bytes. The length does not depend on the hash, which is again the stand-in.
\<close>

theorem generateIdBlock_long_hostname_counterexample:
  "length (generateIdBlock (\<lambda>m. replicate 20 (checksum m)) (\<lambda>_. 0) (replicate 4036 CHR ''a''))
     = 4097"
  by (simp add: length_generateIdBlock length_id_payload_plain)


end
